theory Spec2Isabelle
  imports Main "HOL-Library.AList"
begin

section \<open>The Bambu timelapse downloader (bambu\_timelapse\_download.py)\<close>

text \<open>
  The script is one sequential procedure, \<open>ftp_download\<close>, over two collaborators: the
  local download directory and the printer's FTP server. Both are made explicit.
  \<^item> The local file system is part of the state (\<open>world\<close>): whether the download
    directory exists, and the files and directories the run can reach, each under the
    place it occupies. Which place a path leads to is the file system's answer
    (\<open>resolve\<close>): \<open>download_dir/f\<close> may be the entry \<open>f\<close> of the directory, another
    entry of it (\<open>./f\<close>, or another spelling where names are case-insensitive), or a
    place outside it (\<open>../f\<close>).
  \<^item> Everything the script does to the outside (operating-system calls, FTP commands,
    log records) is appended, in program order, to one trace of events.
  \<^item> What the outside answers is a parameter (\<open>env\<close>): for every call that can raise,
    the outcome of that call. The calls of the download loop are made at most once per
    iteration, so their outcomes are indexed by the loop index and the file name.
  \<^item> An exception is a value (\<open>Raised\<close>), and so is \<open>sys.exit\<close> (\<open>SysExit\<close>), which
    \<open>except Exception\<close> does not catch.
\<close>

subsection \<open>Data\<close>

type_synonym filename = string
type_synonym bytes = string

text \<open>
  The exceptions (subclasses of \<open>Exception\<close>). The script tells \<open>ftplib.error_perm\<close>
  from every other class (line 148), so that class is a constructor of its own. The
  argument is the text \<open>str(e)\<close>, except for the two errors of the file system, where it
  is the path (the message around it depends on the platform).
\<close>

datatype exn =
    error_perm string
  | TypeError string
  | OverflowError string
  | FileNotFoundError string
  | IsADirectoryError string
  | OtherException string

datatype 'a outcome = Done 'a | Raised exn | SysExit nat

text \<open>The namespace \<open>args\<close> that \<open>parse_args\<close> returns (lines 166 to 172).\<close>

record args =
  ip :: "string option"
  port :: int
  user :: string
  password :: "string option"
  download_dir :: string
  ftp_timelapse_folder :: string
  delete_files_from_sd_card_after_download :: bool

text \<open>
  The command line after tokenising: each flag given or not. \<open>--ip\<close> and
  \<open>--password\<close> have no default, so \<open>args.ip\<close> and \<open>args.password\<close> are \<open>None\<close> when the
  flag is absent.
\<close>

record cli =
  cli_ip :: "string option"
  cli_port :: "int option"
  cli_user :: "string option"
  cli_password :: "string option"
  cli_download_dir :: "string option"
  cli_ftp_timelapse_folder :: "string option"
  cli_delete :: bool

text \<open>
  Log records: the level and the message, the message as its template with the values
  it is formatted with (the rendering of the f-string, which for line 119 includes a
  float, is not modelled).
\<close>

datatype level = INFO | ERROR

datatype msg =
    Starting
  | Connecting string "string option" int
  | Connected
  | ConnectionFailed exn
  | LookingForFiles
  | FoundFiles nat
  | SizeZeroSkip filename
  | StartingDownload nat nat filename int
  | DeleteFailed exn
  | DownloadFailed filename exn
  | NoNewFiles
  | NoFilesInDir
  | FolderNotFound string
  | ProgramFailed exn

datatype event =
    Log level msg
  | Makedirs string
  | Listdir string
  | Connect "string option" int
  | Login string "string option"
  | ProtP
  | Nlst
  | Cwd string
  | Size filename
  | OpenWb string
  | Retr filename
  | Dele filename
  | Remove string

text \<open>
  Where a path leads: to the entry of the download directory that \<open>os.listdir\<close> reports
  under the given name, or to a place outside the directory. What is there: a regular
  file with its contents, or a directory.
\<close>

datatype place = InDir filename | Outside string

datatype node = File bytes | Directory

record world =
  dir_exists :: bool
  files :: "(place \<times> node) list"
  trace :: "event list"

text \<open>
  The answers of the outside. \<open>size_res\<close> is \<open>Inr None\<close> when the reply to \<open>SIZE\<close> is
  not a 213 reply (\<open>ftplib.FTP.size\<close> then returns \<open>None\<close>). \<open>retr_res\<close> gives the chunks
  handed to the callback and the exception that ends the transfer, if any (a failing
  write or close of the local file ends it the same way). \<open>resolve\<close> gives the place a
  path leads to; \<open>open_res\<close> and \<open>remove_res\<close> are the failures of \<open>open\<close> and
  \<open>os.remove\<close> that the state of the files below does not decide (permissions, a file
  in use, a full disk).
\<close>

record env =
  resolve :: "string \<Rightarrow> place"
  makedirs_res :: "exn option"
  listdir_res :: "exn option"
  connect_res :: "string option \<Rightarrow> int \<Rightarrow> exn option"
  login_res :: "string \<Rightarrow> string option \<Rightarrow> exn option"
  prot_p_res :: "exn option"
  nlst_root_res :: "exn + string list"
  cwd_res :: "string \<Rightarrow> exn option"
  nlst_timelapse_res :: "exn + string list"
  size_res :: "nat \<Rightarrow> filename \<Rightarrow> exn + int option"
  open_res :: "nat \<Rightarrow> filename \<Rightarrow> exn option"
  retr_res :: "nat \<Rightarrow> filename \<Rightarrow> bytes list \<times> exn option"
  delete_res :: "nat \<Rightarrow> filename \<Rightarrow> exn option"
  remove_res :: "nat \<Rightarrow> filename \<Rightarrow> exn option"

subsection \<open>Sequencing, exceptions and the trace\<close>

type_synonym 'a action = "world \<Rightarrow> 'a outcome \<times> world"

definition ret :: "'a \<Rightarrow> 'a action" where
  "ret x w = (Done x, w)"

definition raise :: "exn \<Rightarrow> 'a action" where
  "raise e w = (Raised e, w)"

definition sys_exit :: "nat \<Rightarrow> 'a action" where
  "sys_exit n w = (SysExit n, w)"

definition and_then :: "'a action \<Rightarrow> ('a \<Rightarrow> 'b action) \<Rightarrow> 'b action" where
  "and_then m k w =
     (case m w of
        (Done x, w') \<Rightarrow> k x w'
      | (Raised e, w') \<Rightarrow> (Raised e, w')
      | (SysExit n, w') \<Rightarrow> (SysExit n, w'))"

text \<open>\<open>try: m except Exception as e: h e\<close>. A \<open>SysExit\<close> passes through.\<close>

definition try_except :: "'a action \<Rightarrow> (exn \<Rightarrow> 'a action) \<Rightarrow> 'a action" where
  "try_except m h w =
     (case m w of
        (Raised e, w') \<Rightarrow> h e w'
      | (Done x, w') \<Rightarrow> (Done x, w')
      | (SysExit n, w') \<Rightarrow> (SysExit n, w'))"

definition emit :: "event \<Rightarrow> unit action" where
  "emit ev w = (Done (), w\<lparr>trace := trace w @ [ev]\<rparr>)"

definition logger_info :: "msg \<Rightarrow> unit action" where
  "logger_info m = emit (Log INFO m)"

definition logger_error :: "msg \<Rightarrow> unit action" where
  "logger_error m = emit (Log ERROR m)"

text \<open>A call whose outcome the outside decides: the event, then the answer.\<close>

definition call :: "event \<Rightarrow> exn option \<Rightarrow> unit action" where
  "call ev r = and_then (emit ev) (\<lambda>_. case r of None \<Rightarrow> ret () | Some e \<Rightarrow> raise e)"

definition query :: "event \<Rightarrow> exn + 'a \<Rightarrow> 'a action" where
  "query ev r = and_then (emit ev) (\<lambda>_. case r of Inr x \<Rightarrow> ret x | Inl e \<Rightarrow> raise e)"

subsection \<open>Strings\<close>

text \<open>Python's \<open>s.endswith(t)\<close>.\<close>

definition endswith :: "string \<Rightarrow> string \<Rightarrow> bool" where
  "endswith s t = (length t \<le> length s \<and> drop (length s - length t) s = t)"

subsection \<open>The local files\<close>

definition os_path_exists_dir :: "bool action" where
  "os_path_exists_dir w = (Done (dir_exists w), w)"

definition os_makedirs :: "env \<Rightarrow> string \<Rightarrow> unit action" where
  "os_makedirs E p =
     and_then (call (Makedirs p) (makedirs_res E))
       (\<lambda>_ w. (Done (), w\<lparr>dir_exists := True\<rparr>))"

text \<open>The names \<open>os.listdir\<close> reports: those of the entries of the download directory.\<close>

definition dir_names :: "world \<Rightarrow> filename list" where
  "dir_names w =
     List.map_filter (\<lambda>(q, n). case q of InDir k \<Rightarrow> Some k | Outside _ \<Rightarrow> None) (files w)"

definition os_listdir :: "env \<Rightarrow> string \<Rightarrow> filename list action" where
  "os_listdir E p =
     and_then (call (Listdir p) (listdir_res E))
       (\<lambda>_ w. if dir_exists w then (Done (dir_names w), w)
               else (Raised (FileNotFoundError p), w))"

definition download_file_path :: "args \<Rightarrow> filename \<Rightarrow> string" where
  "download_file_path a f = download_dir a @ ''/'' @ f"

text \<open>What is at the place a path leads to.\<close>

definition node_at :: "env \<Rightarrow> world \<Rightarrow> string \<Rightarrow> node option" where
  "node_at E w p = map_of (files w) (resolve E p)"

definition os_path_exists :: "env \<Rightarrow> string \<Rightarrow> bool action" where
  "os_path_exists E p w = (Done (node_at E w p \<noteq> None), w)"

text \<open>
  \<open>os.remove(p)\<close> while the loop is at \<open>index\<close>, on the file \<open>f\<close>: it raises when nothing
  is there, when a directory is there (the class of that error depends on the platform;
  it is an \<open>OSError\<close>, never \<open>ftplib.error_perm\<close>), and when the file system refuses.
\<close>

definition os_remove :: "env \<Rightarrow> nat \<Rightarrow> filename \<Rightarrow> string \<Rightarrow> unit action" where
  "os_remove E index f p =
     and_then (emit (Remove p))
       (\<lambda>_ w. case node_at E w p of
                 None \<Rightarrow> (Raised (FileNotFoundError p), w)
               | Some Directory \<Rightarrow> (Raised (IsADirectoryError p), w)
               | Some (File _) \<Rightarrow>
                   (case remove_res E index f of
                      Some e \<Rightarrow> (Raised e, w)
                    | None \<Rightarrow> (Done (), w\<lparr>files := AList.delete (resolve E p) (files w)\<rparr>)))"

text \<open>
  \<open>open(p, 'wb')\<close>: it raises when the directory of the path is missing, when a
  directory is there, and when the file system refuses; otherwise it creates the file,
  or truncates it.
\<close>

definition open_wb :: "env \<Rightarrow> nat \<Rightarrow> filename \<Rightarrow> string \<Rightarrow> unit action" where
  "open_wb E index f p =
     and_then (emit (OpenWb p))
       (\<lambda>_ w. if \<not> dir_exists w then (Raised (FileNotFoundError p), w)
               else
                 (case node_at E w p of
                    Some Directory \<Rightarrow> (Raised (IsADirectoryError p), w)
                  | _ \<Rightarrow>
                     (case open_res E index f of
                        Some e \<Rightarrow> (Raised e, w)
                      | None \<Rightarrow>
                          (Done (), w\<lparr>files := AList.update (resolve E p) (File []) (files w)\<rparr>))))"

text \<open>
  \<open>fhandle.write(data)\<close> in the callback (line 130) appends to the file, which is there
  since \<open>open\<close> succeeded.
\<close>

definition fhandle_write :: "env \<Rightarrow> string \<Rightarrow> world \<Rightarrow> bytes \<Rightarrow> world" where
  "fhandle_write E p w data =
     w\<lparr>files :=
         AList.update (resolve E p)
           (File ((case node_at E w p of Some (File old) \<Rightarrow> old | _ \<Rightarrow> []) @ data))
           (files w)\<rparr>"

subsection \<open>The FTP client\<close>

text \<open>
  \<open>retrbinary\<close> sends \<open>RETR\<close> and hands each chunk to the callback, which writes it to the
  file opened at the path \<open>p\<close> (lines 129 to 133; the progress bar is display only and is
  left out).
\<close>

definition retrbinary :: "env \<Rightarrow> nat \<Rightarrow> filename \<Rightarrow> string \<Rightarrow> unit action" where
  "retrbinary E index f p =
     and_then (emit (Retr f))
       (\<lambda>_ w. let w' = foldl (fhandle_write E p) w (fst (retr_res E index f)) in
               case snd (retr_res E index f) of
                 None \<Rightarrow> (Done (), w')
               | Some e \<Rightarrow> (Raised e, w'))"

subsection \<open>The download loop (lines 110 to 145)\<close>

text \<open>Line 86, and lines 103 and 104.\<close>

definition downloaded_files :: "filename list \<Rightarrow> filename list" where
  "downloaded_files names = filter (\<lambda>f. endswith f ''.avi'') names"

definition ftp_timelapse_files :: "filename list \<Rightarrow> filename list \<Rightarrow> filename list" where
  "ftp_timelapse_files downloaded listing =
     filter (\<lambda>f. f \<notin> set downloaded) (filter (\<lambda>f. endswith f ''.avi'') listing)"

text \<open>The body of the \<open>try\<close> of line 118 (lines 119 to 140).\<close>

definition download_attempt ::
  "env \<Rightarrow> args \<Rightarrow> nat \<Rightarrow> nat \<Rightarrow> filename \<Rightarrow> int \<Rightarrow> unit action" where
  "download_attempt E a total_files index f filesize =
     and_then (logger_info (StartingDownload index total_files f filesize)) (\<lambda>_.
     and_then (open_wb E index f (download_file_path a f)) (\<lambda>_.
     and_then (retrbinary E index f (download_file_path a f)) (\<lambda>_.
       if delete_files_from_sd_card_after_download a
       then try_except (call (Dele f) (delete_res E index f))
              (\<lambda>e. logger_error (DeleteFailed e))
       else ret ())))"

text \<open>Its handler (lines 142 to 145).\<close>

definition cleanup :: "env \<Rightarrow> args \<Rightarrow> nat \<Rightarrow> filename \<Rightarrow> exn \<Rightarrow> unit action" where
  "cleanup E a index f e =
     and_then (os_path_exists E (download_file_path a f)) (\<lambda>ex.
     and_then (if ex then os_remove E index f (download_file_path a f) else ret ()) (\<lambda>_.
       logger_error (DownloadFailed f e)))"

text \<open>
  Line 112, \<open>round(filesize / 1024 / 1024, 2)\<close>. On \<open>None\<close> the division raises
  \<open>TypeError\<close>. On an integer it is Python's true division: the quotient is rounded to
  the nearest double, ties to even, and \<open>OverflowError\<close> is raised when that is beyond the
  largest double, \<open>2 ^ 1024 - 2 ^ 971\<close>; so it is raised from \<open>2 ^ 1024 - 2 ^ 970\<close> on for the
  quotient, which is from \<open>2 ^ 1034 - 2 ^ 980\<close> on for the size. The second division and
  \<open>round\<close> then work on a double and do not raise. The value is used in the log line
  only.
\<close>

definition none_div_text :: string where
  "none_div_text =
     ''unsupported operand type(s) for /: '' @ [CHR 0x27] @ ''NoneType'' @ [CHR 0x27]
       @ '' and '' @ [CHR 0x27] @ ''int'' @ [CHR 0x27]"

definition true_div_overflows :: "int \<Rightarrow> bool" where
  "true_div_overflows n = (2 ^ 1034 - 2 ^ 980 \<le> \<bar>n\<bar>)"

text \<open>Past line 112 the size is an integer; it is handed on.\<close>

definition filesize_mb :: "int option \<Rightarrow> int action" where
  "filesize_mb size_opt =
     (case size_opt of
        None \<Rightarrow> raise (TypeError none_div_text)
      | Some n \<Rightarrow>
          if true_div_overflows n
          then raise (OverflowError ''integer division result too large for a float'')
          else ret n)"

text \<open>
  One iteration of the loop. \<open>Done\<close> is the end of the iteration, reached at the end of
  the body or by \<open>continue\<close>. Lines 111 and 112 are outside the \<open>try\<close> of line 118.
\<close>

definition fetch_one :: "env \<Rightarrow> args \<Rightarrow> nat \<Rightarrow> nat \<Rightarrow> filename \<Rightarrow> unit action" where
  "fetch_one E a total_files index f =
     and_then (query (Size f) (size_res E index f)) (\<lambda>size_opt.
     and_then (filesize_mb size_opt) (\<lambda>filesize.
       if filesize = 0 then logger_info (SizeZeroSkip f)
       else try_except (download_attempt E a total_files index f filesize)
              (cleanup E a index f)))"

text \<open>\<open>for index, f in enumerate(ftp_timelapse_files, start=1)\<close>.\<close>

fun run_all :: "env \<Rightarrow> args \<Rightarrow> nat \<Rightarrow> nat \<Rightarrow> filename list \<Rightarrow> unit action" where
  "run_all E a total_files index [] w = (Done (), w)"
| "run_all E a total_files index (f # fs) w =
     and_then (fetch_one E a total_files index f)
       (\<lambda>_. run_all E a total_files (Suc index) fs) w"

subsection \<open>\<open>ftp_download\<close> (lines 81 to 158)\<close>

text \<open>
  The body of the first \<open>try\<close> (lines 83 to 93). Line 89 builds the client object and
  contacts nothing. The port of line 90 is the literal.
\<close>

definition connect_block :: "env \<Rightarrow> args \<Rightarrow> filename list action" where
  "connect_block E a =
     and_then os_path_exists_dir (\<lambda>ex.
     and_then (if \<not> ex then os_makedirs E (download_dir a) else ret ()) (\<lambda>_.
     and_then (os_listdir E (download_dir a)) (\<lambda>names.
     and_then (logger_info (Connecting (user a) (ip a) (port a))) (\<lambda>_.
     and_then (call (Connect (ip a) 990) (connect_res E (ip a) 990)) (\<lambda>_.
     and_then (call (Login (user a) (password a)) (login_res E (user a) (password a))) (\<lambda>_.
     and_then (call ProtP (prot_p_res E)) (\<lambda>_.
     and_then (logger_info Connected) (\<lambda>_.
       ret (downloaded_files names)))))))))"

text \<open>The body of the \<open>try\<close> of line 101 (lines 102 to 147).\<close>

definition files_block :: "env \<Rightarrow> args \<Rightarrow> filename list \<Rightarrow> unit action" where
  "files_block E a downloaded =
     and_then (logger_info LookingForFiles) (\<lambda>_.
     and_then (query Nlst (nlst_timelapse_res E)) (\<lambda>listing.
       let files = ftp_timelapse_files downloaded listing;
           total_files = length files
       in if total_files \<noteq> 0
          then and_then (logger_info (FoundFiles total_files))
                 (\<lambda>_. run_all E a total_files 1 files)
          else logger_info NoNewFiles))"

text \<open>
  The body of the second \<open>try\<close> (lines 99 to 155). \<open>except ftplib.error_perm\<close> leaves
  every other exception to the enclosing handler.
\<close>

definition listing_block :: "env \<Rightarrow> args \<Rightarrow> filename list \<Rightarrow> unit action" where
  "listing_block E a downloaded =
     and_then (query Nlst (nlst_root_res E)) (\<lambda>root.
       if ftp_timelapse_folder a \<in> set root
       then
         and_then (call (Cwd (ftp_timelapse_folder a)) (cwd_res E (ftp_timelapse_folder a))) (\<lambda>_.
           try_except (files_block E a downloaded)
             (\<lambda>e. case e of
                     error_perm resp \<Rightarrow>
                       if resp = ''550 No files found''
                       then logger_error NoFilesInDir
                       else raise e
                   | _ \<Rightarrow> raise e))
       else
         and_then (logger_info (FolderNotFound (ftp_timelapse_folder a)))
           (\<lambda>_. sys_exit 1))"

definition ftp_download :: "env \<Rightarrow> args \<Rightarrow> unit action" where
  "ftp_download E a =
     and_then
       (try_except (connect_block E a)
          (\<lambda>e. and_then (logger_error (ConnectionFailed e)) (\<lambda>_. sys_exit 1)))
       (\<lambda>downloaded.
          try_except (listing_block E a downloaded)
            (\<lambda>e. and_then (logger_error (ProgramFailed e)) (\<lambda>_. sys_exit 1)))"

subsection \<open>The script (lines 161 to 176)\<close>

text \<open>
  \<open>parse_args\<close> with the defaults of lines 166 to 172; \<open>application_path\<close> is the
  directory of the script (lines 15 to 18). The exits of the parser itself (\<open>--version\<close>,
  a malformed argument) and \<open>setup_logging\<close> (lines 21 to 60) are left out: the log is
  the records in the trace.
\<close>

definition parse_args :: "string \<Rightarrow> cli \<Rightarrow> args" where
  "parse_args application_path c =
     \<lparr> ip = cli_ip c,
       port = (case cli_port c of None \<Rightarrow> 990 | Some p \<Rightarrow> p),
       user = (case cli_user c of None \<Rightarrow> ''bblp'' | Some u \<Rightarrow> u),
       password = cli_password c,
       download_dir =
         (case cli_download_dir c of None \<Rightarrow> application_path @ ''/timelapse'' | Some d \<Rightarrow> d),
       ftp_timelapse_folder =
         (case cli_ftp_timelapse_folder c of None \<Rightarrow> ''timelapse'' | Some d \<Rightarrow> d),
       delete_files_from_sd_card_after_download = cli_delete c \<rparr>"

text \<open>
  The exit status of the process: that of \<open>sys.exit\<close>, 0 when the script runs to its
  end, 1 when an exception is not caught.
\<close>

definition exit_code :: "'a outcome \<Rightarrow> nat" where
  "exit_code r = (case r of Done _ \<Rightarrow> 0 | Raised _ \<Rightarrow> 1 | SysExit n \<Rightarrow> n)"

definition main :: "env \<Rightarrow> string \<Rightarrow> cli \<Rightarrow> unit action" where
  "main E application_path c =
     and_then (logger_info Starting)
       (\<lambda>_. ftp_download E (parse_args application_path c))"

subsection \<open>What a stretch of a run may do\<close>

text \<open>
  For stating what a part of the run keeps to: from \<open>w\<close> to \<open>w'\<close> the trace has only
  grown, every \<open>RETR\<close> sent in between is for a file of \<open>fs\<close>, and the download directory,
  if it was there, still is.
\<close>

definition retrieves_only :: "filename list \<Rightarrow> world \<Rightarrow> world \<Rightarrow> bool" where
  "retrieves_only fs w w' =
     ((\<exists>evs. trace w' = trace w @ evs \<and> (\<forall>g. Retr g \<in> set evs \<longrightarrow> g \<in> set fs))
      \<and> (dir_exists w \<longrightarrow> dir_exists w'))"

text \<open>An action keeps to it from every state.\<close>

definition keeps :: "filename list \<Rightarrow> 'a action \<Rightarrow> bool" where
  "keeps fs m = (\<forall>w. retrieves_only fs w (snd (m w)))"

subsection \<open>A printer, a command line and two local directories\<close>

text \<open>
  Concrete inputs, for running the definitions: a printer that answers every call, with
  three entries in its timelapse folder (one of them of size 0, one that is no video), a
  command line with the defaults and the download directory \<open>videos\<close>, a file system
  where \<open>videos/k\<close> is the entry \<open>k\<close> of that directory, a machine without the directory
  and one that holds an earlier video. The runs below change one answer at a time.
\<close>

definition plain :: "string \<Rightarrow> place" where
  "plain p = (if take 7 p = ''videos/'' then InDir (drop 7 p) else Outside p)"

definition printer :: env where
  "printer =
     \<lparr> resolve = plain,
       makedirs_res = None,
       listdir_res = None,
       connect_res = (\<lambda>_ _. None),
       login_res = (\<lambda>_ _. None),
       prot_p_res = None,
       nlst_root_res = Inr [''cache'', ''timelapse''],
       cwd_res = (\<lambda>_. None),
       nlst_timelapse_res = Inr [''a.avi'', ''b.avi'', ''c.txt''],
       size_res = (\<lambda>_ f. Inr (Some (if f = ''a.avi'' then 8 else if f = ''b.avi'' then 0 else 500))),
       open_res = (\<lambda>_ _. None),
       retr_res = (\<lambda>_ _. ([''RIFF'', ''data''], None)),
       delete_res = (\<lambda>_ _. None),
       remove_res = (\<lambda>_ _. None) \<rparr>"

definition cmdline :: cli where
  "cmdline =
     \<lparr> cli_ip = Some ''192.168.1.50'', cli_port = None, cli_user = None,
       cli_password = Some ''12345678'', cli_download_dir = Some ''videos'',
       cli_ftp_timelapse_folder = None, cli_delete = False \<rparr>"

definition fresh :: world where
  "fresh = \<lparr> dir_exists = False, files = [], trace = [] \<rparr>"

definition stocked :: world where
  "stocked = \<lparr> dir_exists = True, files = [(InDir ''old.avi'', File ''RIFF'')], trace = [] \<rparr>"

section \<open>Properties\<close>

lemmas act_defs = ret_def raise_def sys_exit_def and_then_def try_except_def emit_def
  logger_info_def logger_error_def call_def query_def


subsection \<open>Steps that keep to a set of files\<close>

lemma retrieves_onlyI:
  assumes "trace w' = trace w @ evs" "\<forall>g. Retr g \<in> set evs \<longrightarrow> g \<in> set fs"
    "dir_exists w \<longrightarrow> dir_exists w'"
  shows "retrieves_only fs w w'"
  unfolding retrieves_only_def using assms by (intro conjI exI [of _ evs])

lemma retrieves_only_refl: "retrieves_only fs w w"
  by (rule retrieves_onlyI [of _ _ "[]"]) simp_all

lemma retrieves_only_trans:
  assumes "retrieves_only fs w w1" "retrieves_only fs w1 w2"
  shows "retrieves_only fs w w2"
proof -
  from assms(1) obtain evs1 where t1: "trace w1 = trace w @ evs1"
    and r1: "\<forall>g. Retr g \<in> set evs1 \<longrightarrow> g \<in> set fs"
    and d1: "dir_exists w \<longrightarrow> dir_exists w1"
    unfolding retrieves_only_def by (elim exE conjE)
  from assms(2) obtain evs2 where t2: "trace w2 = trace w1 @ evs2"
    and r2: "\<forall>g. Retr g \<in> set evs2 \<longrightarrow> g \<in> set fs"
    and d2: "dir_exists w1 \<longrightarrow> dir_exists w2"
    unfolding retrieves_only_def by (elim exE conjE)
  show ?thesis
  proof (rule retrieves_onlyI [of _ _ "evs1 @ evs2"])
    show "trace w2 = trace w @ evs1 @ evs2" using t1 t2 by simp
    show "\<forall>g. Retr g \<in> set (evs1 @ evs2) \<longrightarrow> g \<in> set fs" using r1 r2 by auto
    show "dir_exists w \<longrightarrow> dir_exists w2" using d1 d2 by simp
  qed
qed

lemma retrieves_only_mono:
  assumes "retrieves_only fs w w'" "set fs \<subseteq> set fs'"
  shows "retrieves_only fs' w w'"
proof -
  from assms(1) obtain evs where t: "trace w' = trace w @ evs"
    and r: "\<forall>g. Retr g \<in> set evs \<longrightarrow> g \<in> set fs"
    and d: "dir_exists w \<longrightarrow> dir_exists w'"
    unfolding retrieves_only_def by (elim exE conjE)
  show ?thesis
  proof (rule retrieves_onlyI [of _ _ evs])
    show "trace w' = trace w @ evs" by (rule t)
    show "\<forall>g. Retr g \<in> set evs \<longrightarrow> g \<in> set fs'" using r assms(2) by auto
    show "dir_exists w \<longrightarrow> dir_exists w'" by (rule d)
  qed
qed

lemma retrieves_only_events:
  assumes "\<forall>g. Retr g \<in> set evs \<longrightarrow> g \<in> set fs"
  shows "retrieves_only fs w (w\<lparr>trace := trace w @ evs\<rparr>)"
  by (rule retrieves_onlyI [of _ _ evs]) (simp_all add: assms)

lemma keepsI: "(\<And>w. retrieves_only fs w (snd (m w))) \<Longrightarrow> keeps fs m"
  by (simp add: keeps_def)

lemma keepsD: "keeps fs m \<Longrightarrow> retrieves_only fs w (snd (m w))"
  by (simp add: keeps_def)

lemma keeps_ret: "keeps fs (ret x)"
  by (rule keepsI) (simp add: ret_def retrieves_only_refl)

lemma keeps_raise: "keeps fs (raise e)"
  by (rule keepsI) (simp add: raise_def retrieves_only_refl)

lemma keeps_emit: "\<forall>g. ev = Retr g \<longrightarrow> g \<in> set fs \<Longrightarrow> keeps fs (emit ev)"
  by (rule keepsI) (simp add: emit_def retrieves_only_events)

lemma keeps_and_then:
  assumes "keeps fs m" "\<And>x. keeps fs (k x)"
  shows "keeps fs (and_then m k)"
proof (rule keepsI)
  fix w
  obtain r w1 where m: "m w = (r, w1)" by (cases "m w")
  have a: "retrieves_only fs w w1" using keepsD [OF assms(1), of w] by (simp add: m)
  show "retrieves_only fs w (snd (and_then m k w))"
  proof (cases r)
    case (Done x)
    have "retrieves_only fs w1 (snd (k x w1))" by (rule keepsD [OF assms(2)])
    with a have "retrieves_only fs w (snd (k x w1))" by (rule retrieves_only_trans)
    with Done m show ?thesis by (simp add: and_then_def)
  qed (use a m in \<open>simp_all add: and_then_def\<close>)
qed

lemma keeps_try_except:
  assumes "keeps fs m" "\<And>e. keeps fs (h e)"
  shows "keeps fs (try_except m h)"
proof (rule keepsI)
  fix w
  obtain r w1 where m: "m w = (r, w1)" by (cases "m w")
  have a: "retrieves_only fs w w1" using keepsD [OF assms(1), of w] by (simp add: m)
  show "retrieves_only fs w (snd (try_except m h w))"
  proof (cases r)
    case (Raised e)
    have "retrieves_only fs w1 (snd (h e w1))" by (rule keepsD [OF assms(2)])
    with a have "retrieves_only fs w (snd (h e w1))" by (rule retrieves_only_trans)
    with Raised m show ?thesis by (simp add: try_except_def)
  qed (use a m in \<open>simp_all add: try_except_def\<close>)
qed

lemma keeps_logger: "keeps fs (logger_info t)" "keeps fs (logger_error t)"
  by (simp_all add: logger_info_def logger_error_def keeps_emit)

lemma keeps_call: "\<forall>g. ev = Retr g \<longrightarrow> g \<in> set fs \<Longrightarrow> keeps fs (call ev r)"
  unfolding call_def
  by (intro keeps_and_then keeps_emit) (simp_all add: keeps_ret keeps_raise split: option.splits)

lemma keeps_query: "\<forall>g. ev = Retr g \<longrightarrow> g \<in> set fs \<Longrightarrow> keeps fs (query ev r)"
  unfolding query_def
  by (intro keeps_and_then keeps_emit) (simp_all add: keeps_ret keeps_raise split: sum.splits)

lemma foldl_write_trace: "trace (foldl (fhandle_write E p) w cs) = trace w"
  by (induction cs arbitrary: w) (auto simp: fhandle_write_def)

lemma foldl_write_dir: "dir_exists (foldl (fhandle_write E p) w cs) = dir_exists w"
  by (induction cs arbitrary: w) (auto simp: fhandle_write_def)

lemma node_at_trace [simp]: "node_at E (w\<lparr>trace := t\<rparr>) p = node_at E w p"
  by (simp add: node_at_def)

lemma node_at_write:
  "node_at E (fhandle_write E p w c) p =
     Some (File ((case node_at E w p of Some (File old) \<Rightarrow> old | _ \<Rightarrow> []) @ c))"
  by (simp add: fhandle_write_def node_at_def update_conv')

lemma foldl_write_node:
  "node_at E w p = Some (File old) \<Longrightarrow>
   node_at E (foldl (fhandle_write E p) w cs) p = Some (File (old @ concat cs))"
  by (induction cs arbitrary: w old) (auto simp: node_at_write)


lemma keeps_os_path_exists: "keeps fs (os_path_exists E p)"
  by (rule keepsI) (simp add: os_path_exists_def retrieves_only_refl)

lemma keeps_local_step:
  assumes "\<And>w. trace (snd (k w)) = trace w" "\<And>w. dir_exists w \<longrightarrow> dir_exists (snd (k w))"
  shows "keeps fs k"
proof (rule keepsI)
  fix w
  show "retrieves_only fs w (snd (k w))"
    by (rule retrieves_onlyI [of _ _ "[]"]) (simp_all add: assms)
qed



lemma keeps_os_remove: "keeps fs (os_remove E index f p)"
  unfolding os_remove_def
  by (intro keeps_and_then keeps_emit keeps_local_step)
     (simp_all split: option.splits node.splits)

lemma keeps_open_wb: "keeps fs (open_wb E index f p)"
  unfolding open_wb_def
  by (intro keeps_and_then keeps_emit keeps_local_step)
     (simp_all split: option.splits node.splits)

lemma keeps_retrbinary: "f \<in> set fs \<Longrightarrow> keeps fs (retrbinary E index f p)"
  unfolding retrbinary_def
  by (intro keeps_and_then keeps_emit keeps_local_step)
     (simp_all add: Let_def foldl_write_trace foldl_write_dir split: option.splits)

lemma keeps_filesize_mb: "keeps fs (filesize_mb s)"
  unfolding filesize_mb_def
  by (simp add: keeps_ret keeps_raise split: option.splits)

lemma keeps_download_attempt:
  "f \<in> set fs \<Longrightarrow> keeps fs (download_attempt E a total_files index f n)"
  unfolding download_attempt_def
  by (intro keeps_and_then keeps_logger keeps_open_wb keeps_retrbinary)
     (simp_all add: keeps_try_except keeps_call keeps_logger keeps_ret)

lemma keeps_cleanup: "keeps fs (cleanup E a index f e)"
  unfolding cleanup_def
  by (intro keeps_and_then keeps_os_path_exists keeps_logger)
     (simp add: keeps_os_remove keeps_ret)

text \<open>
  What any iteration does, whatever the printer and the file system answer: it appends
  to the trace, it keeps the download directory, and it retrieves at most the file it is
  given. So does the loop for its list of files.
\<close>

lemma keeps_fetch_one: "f \<in> set fs \<Longrightarrow> keeps fs (fetch_one E a total_files index f)"
  unfolding fetch_one_def
  by (intro keeps_and_then keeps_query keeps_filesize_mb)
     (simp_all add: keeps_logger keeps_try_except keeps_download_attempt keeps_cleanup)

lemma keeps_run_all: "set gs \<subseteq> set fs \<Longrightarrow> keeps fs (run_all E a total_files index gs)"
proof (induction gs arbitrary: index)
  case Nil
  show ?case by (rule keepsI) (simp add: retrieves_only_refl)
next
  case (Cons g gs)
  have "keeps fs (and_then (fetch_one E a total_files index g)
           (\<lambda>_. run_all E a total_files (Suc index) gs))"
    using Cons by (intro keeps_and_then keeps_fetch_one) simp_all
  then show ?case
    by (simp add: keeps_def)
qed

subsection \<open>One iteration of the loop\<close>

lemma fetch_one_sized:
  assumes "size_res E index f = Inr (Some n)" "n \<noteq> 0" "\<not> true_div_overflows n"
  shows "fetch_one E a total_files index f w =
     try_except (download_attempt E a total_files index f n) (cleanup E a index f)
       (w\<lparr>trace := trace w @ [Size f]\<rparr>)"
  using assms
  by (simp add: fetch_one_def filesize_mb_def and_then_def query_def emit_def ret_def)

text \<open>The end of the \<open>try\<close> body: the optional remote deletion never raises.\<close>

lemma delete_step:
  "\<exists>evs. (if delete_files_from_sd_card_after_download a
          then try_except (call (Dele f) (delete_res E index f))
                 (\<lambda>e. logger_error (DeleteFailed e))
          else ret ()) w = (Done (), w\<lparr>trace := trace w @ evs\<rparr>) \<and>
     evs = (if delete_files_from_sd_card_after_download a
            then Dele f # (case delete_res E index f of None \<Rightarrow> []
                           | Some e \<Rightarrow> [Log ERROR (DeleteFailed e)])
            else [])"
  by (cases "delete_res E index f") (simp_all add: act_defs)

lemma open_wb_opened:
  assumes "dir_exists w" "node_at E w p \<noteq> Some Directory" "open_res E index f = None"
  shows "\<exists>w'. open_wb E index f p w = (Done (), w') \<and> node_at E w' p = Some (File []) \<and>
     dir_exists w' \<and> trace w' = trace w @ [OpenWb p]"
  using assms
  by (simp add: open_wb_def act_defs node_at_def update_conv' split: option.splits node.splits)

lemma open_wb_not_opened:
  assumes "\<not> dir_exists w \<or> node_at E w p = Some Directory \<or> open_res E index f \<noteq> None"
  shows "\<exists>e. open_wb E index f p w = (Raised e, w\<lparr>trace := trace w @ [OpenWb p]\<rparr>)"
  using assms
  by (auto simp add: open_wb_def act_defs split: option.splits node.splits)

lemma retrbinary_result:
  assumes "node_at E w p = Some (File old)"
  shows "\<exists>w'. retrbinary E index f p w =
       ((case snd (retr_res E index f) of None \<Rightarrow> Done () | Some e \<Rightarrow> Raised e), w') \<and>
     trace w' = trace w @ [Retr f] \<and> dir_exists w' = dir_exists w \<and>
     node_at E w' p = Some (File (old @ concat (fst (retr_res E index f))))"
  using assms
  by (cases "snd (retr_res E index f)")
     (simp_all add: retrbinary_def act_defs Let_def foldl_write_trace foldl_write_dir
        foldl_write_node)

text \<open>The \<open>try\<close> body when the file can be opened.\<close>

lemma download_attempt_opened:
  assumes d: "dir_exists w" and nd: "node_at E w (download_file_path a f) \<noteq> Some Directory"
    and o: "open_res E index f = None"
  shows "\<exists>w'. download_attempt E a total_files index f n w =
       ((case snd (retr_res E index f) of None \<Rightarrow> Done () | Some e \<Rightarrow> Raised e), w') \<and>
     node_at E w' (download_file_path a f) = Some (File (concat (fst (retr_res E index f)))) \<and>
     dir_exists w' \<and>
     trace w' = trace w @
       [Log INFO (StartingDownload index total_files f n), OpenWb (download_file_path a f), Retr f]
       @ (case snd (retr_res E index f) of Some e \<Rightarrow> []
          | None \<Rightarrow>
            if delete_files_from_sd_card_after_download a
            then Dele f # (case delete_res E index f of None \<Rightarrow> []
                           | Some e \<Rightarrow> [Log ERROR (DeleteFailed e)])
            else [])"
proof -
  let ?p = "download_file_path a f"
  define w0 where "w0 = w\<lparr>trace := trace w @ [Log INFO (StartingDownload index total_files f n)]\<rparr>"
  have s0: "logger_info (StartingDownload index total_files f n) w = (Done (), w0)"
    by (simp add: w0_def logger_info_def emit_def)
  have d0: "dir_exists w0" and nd0: "node_at E w0 ?p \<noteq> Some Directory"
    and t0: "trace w0 = trace w @ [Log INFO (StartingDownload index total_files f n)]"
    using d nd by (simp_all add: w0_def)
  from open_wb_opened [OF d0 nd0 o]
  obtain w1 where op: "open_wb E index f ?p w0 = (Done (), w1)"
    and l1: "node_at E w1 ?p = Some (File [])"
    and d1: "dir_exists w1"
    and t1: "trace w1 = trace w0 @ [OpenWb ?p]"
    by (elim exE conjE)
  from retrbinary_result [OF l1, of index f]
  obtain w2 where r: "retrbinary E index f ?p w1 =
       ((case snd (retr_res E index f) of None \<Rightarrow> Done () | Some e \<Rightarrow> Raised e), w2)"
    and t2: "trace w2 = trace w1 @ [Retr f]"
    and d2': "dir_exists w2 = dir_exists w1"
    and l2': "node_at E w2 ?p = Some (File ([] @ concat (fst (retr_res E index f))))"
    by (elim exE conjE)
  from l2' have l2: "node_at E w2 ?p = Some (File (concat (fst (retr_res E index f))))" by simp
  from d1 d2' have d2: "dir_exists w2" by simp
  show ?thesis
  proof (cases "snd (retr_res E index f)")
    case (Some e)
    with r have "download_attempt E a total_files index f n w = (Raised e, w2)"
      by (simp add: download_attempt_def and_then_def s0 op)
    with Some t0 t1 t2 l2 d2 show ?thesis by simp
  next
    case None
    from delete_step [of a f E index w2]
    obtain evs where
      e: "(if delete_files_from_sd_card_after_download a
          then try_except (call (Dele f) (delete_res E index f))
                 (\<lambda>e. logger_error (DeleteFailed e))
          else ret ()) w2 = (Done (), w2\<lparr>trace := trace w2 @ evs\<rparr>)"
      and evs: "evs = (if delete_files_from_sd_card_after_download a
            then Dele f # (case delete_res E index f of None \<Rightarrow> []
                           | Some e \<Rightarrow> [Log ERROR (DeleteFailed e)])
            else [])"
      by (elim exE conjE)
    from None r have r': "retrbinary E index f ?p w1 = (Done (), w2)" by simp
    have "download_attempt E a total_files index f n w = (Done (), w2\<lparr>trace := trace w2 @ evs\<rparr>)"
      using e by (simp add: download_attempt_def and_then_def s0 op r')
    with None t0 t1 t2 l2 d2 evs show ?thesis by simp
  qed
qed

text \<open>The \<open>try\<close> body when it cannot.\<close>

lemma download_attempt_not_opened:
  assumes "\<not> dir_exists w \<or> node_at E w (download_file_path a f) = Some Directory
       \<or> open_res E index f \<noteq> None"
  shows "\<exists>e. download_attempt E a total_files index f n w =
       (Raised e, w\<lparr>trace := trace w @
         [Log INFO (StartingDownload index total_files f n), OpenWb (download_file_path a f)]\<rparr>)"
proof -
  let ?p = "download_file_path a f"
  define w0 where "w0 = w\<lparr>trace := trace w @ [Log INFO (StartingDownload index total_files f n)]\<rparr>"
  have s0: "logger_info (StartingDownload index total_files f n) w = (Done (), w0)"
    by (simp add: w0_def logger_info_def emit_def)
  from assms have "\<not> dir_exists w0 \<or> node_at E w0 ?p = Some Directory
       \<or> open_res E index f \<noteq> None"
    by (simp add: w0_def)
  from open_wb_not_opened [OF this]
  obtain e where "open_wb E index f ?p w0 = (Raised e, w0\<lparr>trace := trace w0 @ [OpenWb ?p]\<rparr>)"
    by (elim exE)
  then have "download_attempt E a total_files index f n w =
      (Raised e, w0\<lparr>trace := trace w0 @ [OpenWb ?p]\<rparr>)"
    by (simp add: download_attempt_def and_then_def s0)
  then have "download_attempt E a total_files index f n w =
       (Raised e, w\<lparr>trace := trace w @
         [Log INFO (StartingDownload index total_files f n), OpenWb ?p]\<rparr>)"
    by (simp add: w0_def)
  then show ?thesis by (rule exI)
qed

text \<open>The handler, by what is at the path and what \<open>os.remove\<close> answers.\<close>

lemma cleanup_result:
  "cleanup E a index f e w =
     (case node_at E w (download_file_path a f) of
        None \<Rightarrow> (Done (), w\<lparr>trace := trace w @ [Log ERROR (DownloadFailed f e)]\<rparr>)
      | Some Directory \<Rightarrow>
          (Raised (IsADirectoryError (download_file_path a f)),
           w\<lparr>trace := trace w @ [Remove (download_file_path a f)]\<rparr>)
      | Some (File b) \<Rightarrow>
          (case remove_res E index f of
             Some e' \<Rightarrow> (Raised e', w\<lparr>trace := trace w @ [Remove (download_file_path a f)]\<rparr>)
           | None \<Rightarrow>
               (Done (),
                w\<lparr>files := AList.delete (resolve E (download_file_path a f)) (files w),
                  trace := trace w @
                    [Remove (download_file_path a f), Log ERROR (DownloadFailed f e)]\<rparr>)))"
  by (simp add: cleanup_def os_path_exists_def os_remove_def act_defs
        split: option.splits node.splits)

lemma node_at_deleted:
  "node_at E (w\<lparr>files := AList.delete (resolve E p) (files w), trace := t\<rparr>) p = None"
  "node_at E (w\<lparr>files := AList.delete (resolve E p) (files w)\<rparr>) p = None"
  by (simp_all add: node_at_def delete_conv')

text \<open>A name is listed when its entry holds something.\<close>

lemma dir_names_iff: "f \<in> set (dir_names w) \<longleftrightarrow> map_of (files w) (InDir f) \<noteq> None"
proof -
  have "f \<in> set (List.map_filter (\<lambda>(q, n). case q of InDir k \<Rightarrow> Some k | Outside _ \<Rightarrow> None) xs)
      \<longleftrightarrow> InDir f \<in> fst ` set xs" for xs :: "(place \<times> node) list"
    by (induction xs) (auto split: place.splits)
  then show ?thesis by (simp add: dir_names_def map_of_eq_None_iff)
qed

lemma not_listed:
  "node_at E w p = None \<Longrightarrow> resolve E p = InDir f \<Longrightarrow> f \<notin> set (dir_names w)"
  by (simp add: dir_names_iff node_at_def)

text \<open>
  C4. When the size reported for a file is 0, the iteration sends \<open>SIZE\<close>, logs the skip
  notice and ends: the local files are as before, nothing is opened and no \<open>RETR\<close> is
  sent, and the loop goes on with the next file.
\<close>

theorem zero_size_skipped:
  assumes "size_res E index f = Inr (Some 0)"
  shows "fetch_one E a total_files index f w =
           (Done (), w\<lparr>trace := trace w @ [Size f, Log INFO (SizeZeroSkip f)]\<rparr>)
       \<and> files (snd (fetch_one E a total_files index f w)) = files w
       \<and> dir_exists (snd (fetch_one E a total_files index f w)) = dir_exists w
       \<and> run_all E a total_files index (f # fs) w =
           run_all E a total_files (Suc index) fs
             (w\<lparr>trace := trace w @ [Size f, Log INFO (SizeZeroSkip f)]\<rparr>)"
proof -
  have "fetch_one E a total_files index f w =
           (Done (), w\<lparr>trace := trace w @ [Size f, Log INFO (SizeZeroSkip f)]\<rparr>)"
    using assms by (simp add: fetch_one_def filesize_mb_def true_div_overflows_def act_defs)
  then show ?thesis by (simp add: and_then_def)
qed

theorem zero_size_skipped_witness:
  "size_res printer 2 ''b.avi'' = Inr (Some 0)
   \<and> fetch_one printer (parse_args ''/opt/bambu'' cmdline) 2 2 ''b.avi'' stocked =
       (Done (), stocked\<lparr>trace := trace stocked @ [Size ''b.avi'', Log INFO (SizeZeroSkip ''b.avi'')]\<rparr>)"
proof -
  have h: "size_res printer 2 ''b.avi'' = Inr (Some 0)"
    by (simp add: printer_def)
  from zero_size_skipped [OF h, THEN conjunct1] h show ?thesis by (intro conjI)
qed

text \<open>
  C5, as amended. When the transfer of a file \<open>f\<close> fails and \<open>os.remove\<close> does not
  itself raise (the file system does not refuse it, and what is at the path is not a
  directory), the iteration ends normally with nothing at the path of \<open>f\<close>, so that the
  download directory lists no \<open>f\<close>, and with the failure logged under the file name; when
  the local file had been created, it is removed right after the failed \<open>RETR\<close>. The
  loop goes on with the next file. (A transfer is attempted for a file whose size
  passes lines 111 and 112.)
\<close>

theorem partial_file_removed:
  assumes sz: "size_res E index f = Inr (Some n)" "n \<noteq> 0" "\<not> true_div_overflows n"
    and nd: "node_at E w (download_file_path a f) \<noteq> Some Directory"
    and fail: "snd (retr_res E index f) = Some e"
    and rm: "remove_res E index f = None"
  shows "\<exists>w' e' evs.
       fetch_one E a total_files index f w = (Done (), w')
     \<and> node_at E w' (download_file_path a f) = None
     \<and> (resolve E (download_file_path a f) = InDir f \<longrightarrow> f \<notin> set (dir_names w'))
     \<and> trace w' = trace w @ evs @ [Log ERROR (DownloadFailed f e')]
     \<and> (dir_exists w \<and> open_res E index f = None \<longrightarrow>
          e' = e \<and>
          evs = [Size f, Log INFO (StartingDownload index total_files f n),
                 OpenWb (download_file_path a f), Retr f, Remove (download_file_path a f)])
     \<and> run_all E a total_files index (f # fs) w = run_all E a total_files (Suc index) fs w'"
proof -
  let ?p = "download_file_path a f"
  define w0 where "w0 = w\<lparr>trace := trace w @ [Size f]\<rparr>"
  have f1: "fetch_one E a total_files index f w =
      try_except (download_attempt E a total_files index f n) (cleanup E a index f) w0"
    unfolding w0_def by (rule fetch_one_sized [OF sz])
  have t0: "trace w0 = trace w @ [Size f]" and d0: "dir_exists w0 = dir_exists w"
    and n0: "node_at E w0 ?p = node_at E w ?p"
    by (simp_all add: w0_def)
  show ?thesis
  proof (cases "dir_exists w \<and> open_res E index f = None")
    case True
    then have d: "dir_exists w0" and o: "open_res E index f = None"
      using d0 by simp_all
    from nd n0 have nd0: "node_at E w0 ?p \<noteq> Some Directory" by simp
    from download_attempt_opened [OF d nd0 o, of total_files n]
    obtain w1 where a1': "download_attempt E a total_files index f n w0 =
          ((case snd (retr_res E index f) of None \<Rightarrow> Done () | Some e \<Rightarrow> Raised e), w1)"
      and l1: "node_at E w1 ?p = Some (File (concat (fst (retr_res E index f))))"
      and t1': "trace w1 = trace w0 @
         [Log INFO (StartingDownload index total_files f n), OpenWb ?p, Retr f]
         @ (case snd (retr_res E index f) of Some e \<Rightarrow> []
            | None \<Rightarrow>
              if delete_files_from_sd_card_after_download a
              then Dele f # (case delete_res E index f of None \<Rightarrow> []
                             | Some e \<Rightarrow> [Log ERROR (DeleteFailed e)])
              else [])"
      by (elim exE conjE)
    from a1' fail have a1: "download_attempt E a total_files index f n w0 = (Raised e, w1)"
      by simp
    from t1' fail have t1: "trace w1 = trace w0 @
         [Log INFO (StartingDownload index total_files f n), OpenWb ?p, Retr f]"
      by simp
    define w2 where "w2 = w1\<lparr>files := AList.delete (resolve E ?p) (files w1),
        trace := trace w1 @ [Remove ?p, Log ERROR (DownloadFailed f e)]\<rparr>"
    have c2: "cleanup E a index f e w1 = (Done (), w2)"
      by (simp add: cleanup_result l1 rm w2_def)
    have l2: "node_at E w2 ?p = None"
      unfolding w2_def by (rule node_at_deleted(1))
    have r: "fetch_one E a total_files index f w = (Done (), w2)"
      by (simp add: f1 try_except_def a1 c2)
    have t2: "trace w2 = trace w @ [Size f, Log INFO (StartingDownload index total_files f n),
                 OpenWb ?p, Retr f, Remove ?p] @ [Log ERROR (DownloadFailed f e)]"
      by (simp add: w2_def t1 t0)
    have c: "run_all E a total_files index (f # fs) w = run_all E a total_files (Suc index) fs w2"
      by (simp add: and_then_def r)
    have nl: "resolve E ?p = InDir f \<longrightarrow> f \<notin> set (dir_names w2)"
      using not_listed [OF l2] by (intro impI)
    have imp: "dir_exists w \<and> open_res E index f = None \<longrightarrow>
          e = e \<and>
          [Size f, Log INFO (StartingDownload index total_files f n),
                 OpenWb ?p, Retr f, Remove ?p] =
          [Size f, Log INFO (StartingDownload index total_files f n),
                 OpenWb ?p, Retr f, Remove ?p]"
      by simp
    from r l2 nl t2 imp c show ?thesis
      by (intro exI [of _ w2] exI [of _ e]
            exI [of _ "[Size f, Log INFO (StartingDownload index total_files f n),
                 OpenWb ?p, Retr f, Remove ?p]"] conjI)
  next
    case False
    then have "\<not> dir_exists w0 \<or> node_at E w0 ?p = Some Directory
        \<or> open_res E index f \<noteq> None"
      using d0 by auto
    from download_attempt_not_opened [OF this, of total_files n]
    obtain e' where a1: "download_attempt E a total_files index f n w0 =
       (Raised e', w0\<lparr>trace := trace w0 @
         [Log INFO (StartingDownload index total_files f n), OpenWb ?p]\<rparr>)"
      by (elim exE)
    define w1 where "w1 = w0\<lparr>trace := trace w0 @
         [Log INFO (StartingDownload index total_files f n), OpenWb ?p]\<rparr>"
    have n1: "node_at E w1 ?p = node_at E w ?p" by (simp add: w1_def n0)
    have t1: "trace w1 = trace w @
         [Size f, Log INFO (StartingDownload index total_files f n), OpenWb ?p]"
      by (simp add: w1_def t0)
    obtain w2 where w2: "w2 = snd (cleanup E a index f e' w1)" by simp
    have c2: "cleanup E a index f e' w1 = (Done (), w2)
        \<and> node_at E w2 ?p = None
        \<and> trace w2 = trace w1 @ (if node_at E w ?p = None then [] else [Remove ?p])
              @ [Log ERROR (DownloadFailed f e')]"
    proof (cases "node_at E w ?p")
      case None
      then show ?thesis
        unfolding w2 by (simp add: cleanup_result n1)
    next
      case (Some nd')
      with nd obtain b where b: "node_at E w ?p = Some (File b)"
        by (cases nd') auto
      then show ?thesis
        unfolding w2 by (simp add: cleanup_result n1 rm node_at_deleted)
    qed
    have r: "fetch_one E a total_files index f w = (Done (), w2)"
      using c2 by (simp add: f1 try_except_def a1 w1_def [symmetric])
    define evs where "evs = [Size f, Log INFO (StartingDownload index total_files f n), OpenWb ?p]
        @ (if node_at E w ?p = None then [] else [Remove ?p])"
    have t2: "trace w2 = trace w @ evs @ [Log ERROR (DownloadFailed f e')]"
      using c2 by (simp add: evs_def t1)
    have l2: "node_at E w2 ?p = None" using c2 by simp
    have c: "run_all E a total_files index (f # fs) w = run_all E a total_files (Suc index) fs w2"
      by (simp add: and_then_def r)
    have imp: "dir_exists w \<and> open_res E index f = None \<longrightarrow>
          e' = e \<and>
          evs = [Size f, Log INFO (StartingDownload index total_files f n),
                 OpenWb ?p, Retr f, Remove ?p]"
      using False by blast
    have nl: "resolve E ?p = InDir f \<longrightarrow> f \<notin> set (dir_names w2)"
      using not_listed [OF l2] by (intro impI)
    from r l2 nl t2 imp c show ?thesis
      by (intro exI [of _ w2] exI [of _ e'] exI [of _ evs] conjI)
  qed
qed

theorem partial_file_removed_witness:
  "snd (retr_res (printer\<lparr>retr_res := \<lambda>_ _. ([''RI''], Some (OtherException ''timed out''))\<rparr>)
       1 ''a.avi'') = Some (OtherException ''timed out'')
   \<and> (\<exists>w'. fetch_one (printer\<lparr>retr_res := \<lambda>_ _. ([''RI''], Some (OtherException ''timed out''))\<rparr>)
              (parse_args ''/opt/bambu'' cmdline) 2 1 ''a.avi'' stocked = (Done (), w')
          \<and> node_at (printer\<lparr>retr_res := \<lambda>_ _. ([''RI''], Some (OtherException ''timed out''))\<rparr>)
               w' ''videos/a.avi'' = None
          \<and> ''a.avi'' \<notin> set (dir_names w'))"
proof -
  let ?E = "printer\<lparr>retr_res := \<lambda>_ _. ([''RI''], Some (OtherException ''timed out''))\<rparr>"
  let ?a = "parse_args ''/opt/bambu'' cmdline"
  have p: "download_file_path ?a ''a.avi'' = ''videos/a.avi''"
    by (simp add: download_file_path_def parse_args_def cmdline_def)
  have h1: "size_res ?E 1 ''a.avi'' = Inr (Some 8)" and h2: "(8::int) \<noteq> 0"
    and h3: "\<not> true_div_overflows 8"
    and h4: "node_at ?E stocked (download_file_path ?a ''a.avi'') \<noteq> Some Directory"
    and h5: "snd (retr_res ?E 1 ''a.avi'') = Some (OtherException ''timed out'')"
    and h6: "remove_res ?E 1 ''a.avi'' = None"
    by (simp_all add: p printer_def true_div_overflows_def node_at_def stocked_def plain_def)
  have h7: "resolve ?E (download_file_path ?a ''a.avi'') = InDir ''a.avi''"
    by (simp add: p printer_def plain_def)
  from partial_file_removed [OF h1 h2 h3 h4 h5 h6, of 2 "[]"]
  obtain w' where "fetch_one ?E ?a 2 1 ''a.avi'' stocked = (Done (), w')"
    and "node_at ?E w' (download_file_path ?a ''a.avi'') = None"
    and "resolve ?E (download_file_path ?a ''a.avi'') = InDir ''a.avi''
           \<longrightarrow> ''a.avi'' \<notin> set (dir_names w')"
    by (elim exE conjE)
  with h7 have "\<exists>w'. fetch_one ?E ?a 2 1 ''a.avi'' stocked = (Done (), w')
      \<and> node_at ?E w' ''videos/a.avi'' = None \<and> ''a.avi'' \<notin> set (dir_names w')"
    unfolding p by (intro exI [of _ w'] conjI) simp_all
  with h5 show ?thesis by (intro conjI)
qed

text \<open>
  C6. When a file has been downloaded (its size passes lines 111 and 112, the local
  file is opened and \<open>RETR\<close> completes), deletion on the printer is requested and \<open>DELE\<close>
  fails, the iteration ends normally: the local file holds the bytes received, the
  deletion error is logged (and no download failure), nothing is removed locally, and the
  loop goes on with the next file.
\<close>

theorem remote_delete_failure_keeps_local:
  assumes sz: "size_res E index f = Inr (Some n)" "n \<noteq> 0" "\<not> true_div_overflows n"
    and d: "dir_exists w" and nd: "node_at E w (download_file_path a f) \<noteq> Some Directory"
    and o: "open_res E index f = None"
    and ok: "retr_res E index f = (chunks, None)"
    and flag: "delete_files_from_sd_card_after_download a"
    and del: "delete_res E index f = Some e"
  shows "\<exists>w'.
       fetch_one E a total_files index f w = (Done (), w')
     \<and> node_at E w' (download_file_path a f) = Some (File (concat chunks))
     \<and> trace w' = trace w @
          [Size f, Log INFO (StartingDownload index total_files f n),
           OpenWb (download_file_path a f), Retr f, Dele f, Log ERROR (DeleteFailed e)]
     \<and> run_all E a total_files index (f # fs) w = run_all E a total_files (Suc index) fs w'"
proof -
  let ?p = "download_file_path a f"
  define w0 where "w0 = w\<lparr>trace := trace w @ [Size f]\<rparr>"
  have f1: "fetch_one E a total_files index f w =
      try_except (download_attempt E a total_files index f n) (cleanup E a index f) w0"
    unfolding w0_def by (rule fetch_one_sized [OF sz])
  have t0: "trace w0 = trace w @ [Size f]" and d0: "dir_exists w0"
    and nd0: "node_at E w0 ?p \<noteq> Some Directory"
    using d nd by (simp_all add: w0_def)
  from download_attempt_opened [OF d0 nd0 o, of total_files n]
  obtain w1 where a1': "download_attempt E a total_files index f n w0 =
          ((case snd (retr_res E index f) of None \<Rightarrow> Done () | Some e \<Rightarrow> Raised e), w1)"
    and l1': "node_at E w1 ?p = Some (File (concat (fst (retr_res E index f))))"
    and t1': "trace w1 = trace w0 @
         [Log INFO (StartingDownload index total_files f n), OpenWb ?p, Retr f]
         @ (case snd (retr_res E index f) of Some e \<Rightarrow> []
            | None \<Rightarrow>
              if delete_files_from_sd_card_after_download a
              then Dele f # (case delete_res E index f of None \<Rightarrow> []
                             | Some e \<Rightarrow> [Log ERROR (DeleteFailed e)])
              else [])"
    by (elim exE conjE)
  from a1' ok have a1: "download_attempt E a total_files index f n w0 = (Done (), w1)" by simp
  from l1' ok have l1: "node_at E w1 ?p = Some (File (concat chunks))" by simp
  from t1' ok flag del t0 have t1: "trace w1 = trace w @
          [Size f, Log INFO (StartingDownload index total_files f n),
           OpenWb ?p, Retr f, Dele f, Log ERROR (DeleteFailed e)]"
    by simp
  have r: "fetch_one E a total_files index f w = (Done (), w1)"
    by (simp add: f1 try_except_def a1)
  have c: "run_all E a total_files index (f # fs) w = run_all E a total_files (Suc index) fs w1"
    by (simp add: and_then_def r)
  from r l1 t1 c show ?thesis
    by (intro exI [of _ w1] conjI)
qed

theorem remote_delete_failure_keeps_local_witness:
  "\<exists>w'. fetch_one (printer\<lparr>delete_res := \<lambda>_ _. Some (error_perm ''550 Permission denied'')\<rparr>)
              (parse_args ''/opt/bambu'' (cmdline\<lparr>cli_delete := True\<rparr>)) 2 1 ''a.avi'' stocked
            = (Done (), w')
          \<and> node_at (printer\<lparr>delete_res := \<lambda>_ _. Some (error_perm ''550 Permission denied'')\<rparr>)
               w' ''videos/a.avi'' = Some (File ''RIFFdata'')"
proof -
  let ?E = "printer\<lparr>delete_res := \<lambda>_ _. Some (error_perm ''550 Permission denied'')\<rparr>"
  let ?a = "parse_args ''/opt/bambu'' (cmdline\<lparr>cli_delete := True\<rparr>)"
  have p: "download_file_path ?a ''a.avi'' = ''videos/a.avi''"
    by (simp add: download_file_path_def parse_args_def cmdline_def)
  have h1: "size_res ?E 1 ''a.avi'' = Inr (Some 8)" and h2: "(8::int) \<noteq> 0"
    and h3: "\<not> true_div_overflows 8"
    and h4: "dir_exists stocked"
    and h5: "node_at ?E stocked (download_file_path ?a ''a.avi'') \<noteq> Some Directory"
    and h6: "open_res ?E 1 ''a.avi'' = None"
    and h7: "retr_res ?E 1 ''a.avi'' = ([''RIFF'', ''data''], None)"
    and h8: "delete_files_from_sd_card_after_download ?a"
    and h9: "delete_res ?E 1 ''a.avi'' = Some (error_perm ''550 Permission denied'')"
    by (simp_all add: p printer_def true_div_overflows_def node_at_def stocked_def plain_def
          parse_args_def cmdline_def)
  from remote_delete_failure_keeps_local [OF h1 h2 h3 h4 h5 h6 h7 h8 h9, of 2 "[]"]
  obtain w' where "fetch_one ?E ?a 2 1 ''a.avi'' stocked = (Done (), w')"
    and "node_at ?E w' (download_file_path ?a ''a.avi'') = Some (File (concat [''RIFF'', ''data'']))"
    by (elim exE conjE)
  then have "\<exists>w'. fetch_one ?E ?a 2 1 ''a.avi'' stocked = (Done (), w')
      \<and> node_at ?E w' ''videos/a.avi'' = Some (File ''RIFFdata'')"
    unfolding p by (intro exI [of _ w'] conjI) simp_all
  then show ?thesis .
qed

subsection \<open>The connection phase\<close>

lemmas local_defs = os_path_exists_dir_def os_makedirs_def os_listdir_def

text \<open>The first \<open>try\<close> body, when the local directory can be made and listed.\<close>

lemma connect_block_result:
  assumes "\<not> dir_exists w \<longrightarrow> makedirs_res E = None" "listdir_res E = None"
  shows "connect_block E a w =
     (let w1 = w\<lparr>dir_exists := True,
                  trace := trace w @ (if dir_exists w then [] else [Makedirs (download_dir a)])
                    @ [Listdir (download_dir a), Log INFO (Connecting (user a) (ip a) (port a)),
                       Connect (ip a) 990]\<rparr>
      in case connect_res E (ip a) 990 of
           Some e \<Rightarrow> (Raised e, w1)
         | None \<Rightarrow>
            (case login_res E (user a) (password a) of
               Some e \<Rightarrow> (Raised e, w1\<lparr>trace := trace w1 @ [Login (user a) (password a)]\<rparr>)
             | None \<Rightarrow>
                (case prot_p_res E of
                   Some e \<Rightarrow>
                     (Raised e, w1\<lparr>trace := trace w1 @ [Login (user a) (password a), ProtP]\<rparr>)
                 | None \<Rightarrow>
                     (Done (downloaded_files (dir_names w)),
                      w1\<lparr>trace := trace w1 @
                        [Login (user a) (password a), ProtP, Log INFO Connected]\<rparr>))))"
proof (cases "dir_exists w")
  case False
  with assms show ?thesis
    by (simp add: connect_block_def local_defs act_defs dir_names_def split: option.splits)
next
  case True
  then have "w\<lparr>dir_exists := True\<rparr> = w" by (cases w) simp
  with True assms show ?thesis
    by (simp add: connect_block_def local_defs act_defs dir_names_def split: option.splits)
qed

lemma connect_block_connected:
  assumes "\<not> dir_exists w \<longrightarrow> makedirs_res E = None" "listdir_res E = None"
    "connect_res E (ip a) 990 = None" "login_res E (user a) (password a) = None"
    "prot_p_res E = None"
  shows "connect_block E a w =
     (Done (downloaded_files (dir_names w)),
      w\<lparr>dir_exists := True,
        trace := trace w @ (if dir_exists w then [] else [Makedirs (download_dir a)])
          @ [Listdir (download_dir a), Log INFO (Connecting (user a) (ip a) (port a)),
             Connect (ip a) 990, Login (user a) (password a), ProtP, Log INFO Connected]\<rparr>)"
  using assms by (simp add: connect_block_result)

text \<open>
  C7. When the local directory is in place and \<open>connect\<close> (which includes the TLS
  handshake), \<open>login\<close> or \<open>prot_p\<close> raises, the run logs the connection failure with that
  error as its last record and exits with status 1; up to then it has made only calls of
  the connection phase: no \<open>NLST\<close> was sent and nothing after it was reached.
\<close>

theorem connection_failure_exits:
  assumes "\<not> dir_exists w \<longrightarrow> makedirs_res E = None" and "listdir_res E = None"
    and "connect_res E (ip a) 990 = Some e
       \<or> connect_res E (ip a) 990 = None \<and> login_res E (user a) (password a) = Some e
       \<or> connect_res E (ip a) 990 = None \<and> login_res E (user a) (password a) = None
           \<and> prot_p_res E = Some e"
  shows "\<exists>evs.
       ftp_download E a w =
         (SysExit 1, w\<lparr>dir_exists := True,
                       trace := trace w @ evs @ [Log ERROR (ConnectionFailed e)]\<rparr>)
     \<and> set evs \<subseteq> {Makedirs (download_dir a), Listdir (download_dir a),
                    Log INFO (Connecting (user a) (ip a) (port a)), Connect (ip a) 990,
                    Login (user a) (password a), ProtP}
     \<and> exit_code (fst (ftp_download E a w)) = 1"
proof -
  note cb = connect_block_result [OF assms(1,2), of a]
  from assms(3) consider
      (connect) "connect_res E (ip a) 990 = Some e"
    | (login) "connect_res E (ip a) 990 = None" "login_res E (user a) (password a) = Some e"
    | (prot) "connect_res E (ip a) 990 = None" "login_res E (user a) (password a) = None"
        "prot_p_res E = Some e"
    by auto
  then show ?thesis
  proof cases
    case connect
    let ?evs = "(if dir_exists w then [] else [Makedirs (download_dir a)])
          @ [Listdir (download_dir a), Log INFO (Connecting (user a) (ip a) (port a)),
             Connect (ip a) 990]"
    have fd: "ftp_download E a w =
         (SysExit 1, w\<lparr>dir_exists := True,
                       trace := trace w @ ?evs @ [Log ERROR (ConnectionFailed e)]\<rparr>)"
      using connect by (simp add: ftp_download_def cb act_defs)
    have sub: "set ?evs \<subseteq> {Makedirs (download_dir a), Listdir (download_dir a),
                    Log INFO (Connecting (user a) (ip a) (port a)), Connect (ip a) 990,
                    Login (user a) (password a), ProtP}"
      by auto
    have ex: "exit_code (fst (ftp_download E a w)) = 1"
      by (simp only: fd fst_conv) (simp add: exit_code_def)
    from fd sub ex show ?thesis by (intro exI [of _ ?evs] conjI)
  next
    case login
    let ?evs = "(if dir_exists w then [] else [Makedirs (download_dir a)])
          @ [Listdir (download_dir a), Log INFO (Connecting (user a) (ip a) (port a)),
             Connect (ip a) 990, Login (user a) (password a)]"
    have fd: "ftp_download E a w =
         (SysExit 1, w\<lparr>dir_exists := True,
                       trace := trace w @ ?evs @ [Log ERROR (ConnectionFailed e)]\<rparr>)"
      using login by (simp add: ftp_download_def cb act_defs)
    have sub: "set ?evs \<subseteq> {Makedirs (download_dir a), Listdir (download_dir a),
                    Log INFO (Connecting (user a) (ip a) (port a)), Connect (ip a) 990,
                    Login (user a) (password a), ProtP}"
      by auto
    have ex: "exit_code (fst (ftp_download E a w)) = 1"
      by (simp only: fd fst_conv) (simp add: exit_code_def)
    from fd sub ex show ?thesis by (intro exI [of _ ?evs] conjI)
  next
    case prot
    let ?evs = "(if dir_exists w then [] else [Makedirs (download_dir a)])
          @ [Listdir (download_dir a), Log INFO (Connecting (user a) (ip a) (port a)),
             Connect (ip a) 990, Login (user a) (password a), ProtP]"
    have fd: "ftp_download E a w =
         (SysExit 1, w\<lparr>dir_exists := True,
                       trace := trace w @ ?evs @ [Log ERROR (ConnectionFailed e)]\<rparr>)"
      using prot by (simp add: ftp_download_def cb act_defs)
    have sub: "set ?evs \<subseteq> {Makedirs (download_dir a), Listdir (download_dir a),
                    Log INFO (Connecting (user a) (ip a) (port a)), Connect (ip a) 990,
                    Login (user a) (password a), ProtP}"
      by auto
    have ex: "exit_code (fst (ftp_download E a w)) = 1"
      by (simp only: fd fst_conv) (simp add: exit_code_def)
    from fd sub ex show ?thesis by (intro exI [of _ ?evs] conjI)
  qed
qed

theorem connection_failure_exits_witness:
  "login_res (printer\<lparr>login_res := \<lambda>_ _. Some (error_perm ''530 Login incorrect'')\<rparr>)
       ''bblp'' (Some ''12345678'') = Some (error_perm ''530 Login incorrect'')
   \<and> (\<exists>evs. ftp_download (printer\<lparr>login_res := \<lambda>_ _. Some (error_perm ''530 Login incorrect'')\<rparr>)
          (parse_args ''/opt/bambu'' cmdline) fresh =
        (SysExit 1,
         fresh\<lparr>dir_exists := True,
               trace := trace fresh @ evs
                 @ [Log ERROR (ConnectionFailed (error_perm ''530 Login incorrect''))]\<rparr>)
        \<and> Nlst \<notin> set evs)"
proof -
  let ?E = "printer\<lparr>login_res := \<lambda>_ _. Some (error_perm ''530 Login incorrect'')\<rparr>"
  let ?a = "parse_args ''/opt/bambu'' cmdline"
  have h1: "\<not> dir_exists fresh \<longrightarrow> makedirs_res ?E = None"
    and h2: "listdir_res ?E = None"
    and h3: "connect_res ?E (ip ?a) 990 = Some (error_perm ''530 Login incorrect'')
       \<or> connect_res ?E (ip ?a) 990 = None
           \<and> login_res ?E (user ?a) (password ?a) = Some (error_perm ''530 Login incorrect'')
       \<or> connect_res ?E (ip ?a) 990 = None \<and> login_res ?E (user ?a) (password ?a) = None
           \<and> prot_p_res ?E = Some (error_perm ''530 Login incorrect'')"
    and h4: "login_res ?E ''bblp'' (Some ''12345678'') = Some (error_perm ''530 Login incorrect'')"
    by (simp_all add: printer_def parse_args_def cmdline_def)
  from connection_failure_exits [OF h1 h2 h3]
  obtain evs where r: "ftp_download ?E ?a fresh =
        (SysExit 1,
         fresh\<lparr>dir_exists := True,
               trace := trace fresh @ evs
                 @ [Log ERROR (ConnectionFailed (error_perm ''530 Login incorrect''))]\<rparr>)"
    and s: "set evs \<subseteq> {Makedirs (download_dir ?a), Listdir (download_dir ?a),
                    Log INFO (Connecting (user ?a) (ip ?a) (port ?a)), Connect (ip ?a) 990,
                    Login (user ?a) (password ?a), ProtP}"
    by (elim exE conjE)
  from s have n: "Nlst \<notin> set evs" by auto
  from r n have "\<exists>evs. ftp_download ?E ?a fresh =
        (SysExit 1,
         fresh\<lparr>dir_exists := True,
               trace := trace fresh @ evs
                 @ [Log ERROR (ConnectionFailed (error_perm ''530 Login incorrect''))]\<rparr>)
        \<and> Nlst \<notin> set evs"
    by (intro exI [of _ evs] conjI)
  with h4 show ?thesis by (intro conjI)
qed

subsection \<open>The listing phase\<close>

text \<open>
  C8. When the connection is established and the configured folder is not in the root
  listing, the run logs that the folder was not found and exits with status 1; the
  local files are those there were at the start.
\<close>

theorem missing_folder_exits:
  assumes "\<not> dir_exists w \<longrightarrow> makedirs_res E = None" and "listdir_res E = None"
    and "connect_res E (ip a) 990 = None" and "login_res E (user a) (password a) = None"
    and "prot_p_res E = None"
    and "nlst_root_res E = Inr root" and "ftp_timelapse_folder a \<notin> set root"
  shows "ftp_download E a w =
         (SysExit 1,
          w\<lparr>dir_exists := True,
            trace := trace w @ (if dir_exists w then [] else [Makedirs (download_dir a)])
              @ [Listdir (download_dir a), Log INFO (Connecting (user a) (ip a) (port a)),
                 Connect (ip a) 990, Login (user a) (password a), ProtP, Log INFO Connected,
                 Nlst, Log INFO (FolderNotFound (ftp_timelapse_folder a))]\<rparr>)
     \<and> files (snd (ftp_download E a w)) = files w
     \<and> exit_code (fst (ftp_download E a w)) = 1"
proof -
  note cb = connect_block_connected [OF assms(1-5)]
  have "ftp_download E a w =
         (SysExit 1,
          w\<lparr>dir_exists := True,
            trace := trace w @ (if dir_exists w then [] else [Makedirs (download_dir a)])
              @ [Listdir (download_dir a), Log INFO (Connecting (user a) (ip a) (port a)),
                 Connect (ip a) 990, Login (user a) (password a), ProtP, Log INFO Connected,
                 Nlst, Log INFO (FolderNotFound (ftp_timelapse_folder a))]\<rparr>)"
    using assms(6,7) by (simp add: ftp_download_def listing_block_def cb act_defs)
  then show ?thesis by (simp add: exit_code_def)
qed

theorem missing_folder_exits_witness:
  "''timelapse'' \<notin> set [''cache'', ''model'']
   \<and> exit_code (fst (ftp_download (printer\<lparr>nlst_root_res := Inr [''cache'', ''model'']\<rparr>)
          (parse_args ''/opt/bambu'' cmdline) stocked)) = 1
   \<and> files (snd (ftp_download (printer\<lparr>nlst_root_res := Inr [''cache'', ''model'']\<rparr>)
          (parse_args ''/opt/bambu'' cmdline) stocked)) = [(InDir ''old.avi'', File ''RIFF'')]"
proof -
  let ?E = "printer\<lparr>nlst_root_res := Inr [''cache'', ''model'']\<rparr>"
  let ?a = "parse_args ''/opt/bambu'' cmdline"
  have h1: "\<not> dir_exists stocked \<longrightarrow> makedirs_res ?E = None"
    and h2: "listdir_res ?E = None"
    and h3: "connect_res ?E (ip ?a) 990 = None"
    and h4: "login_res ?E (user ?a) (password ?a) = None"
    and h5: "prot_p_res ?E = None"
    and h6: "nlst_root_res ?E = Inr [''cache'', ''model'']"
    and h7: "ftp_timelapse_folder ?a \<notin> set [''cache'', ''model'']"
    and h8: "''timelapse'' \<notin> set [''cache'', ''model'']"
    and h9: "files stocked = [(InDir ''old.avi'', File ''RIFF'')]"
    by (simp_all add: printer_def parse_args_def cmdline_def stocked_def)
  note r = missing_folder_exits [OF h1 h2 h3 h4 h5 h6 h7]
  from r [THEN conjunct2, THEN conjunct2] r [THEN conjunct2, THEN conjunct1] h8 h9
  show ?thesis by simp
qed

text \<open>
  C9. When listing the timelapse folder raises: for an \<open>error_perm\<close> whose text is
  \<open>550 No files found\<close> the run logs that there are no files and ends with status 0; for
  any other error it logs the failure and exits with status 1.
\<close>

theorem listing_error_outcome:
  assumes "\<not> dir_exists w \<longrightarrow> makedirs_res E = None" and "listdir_res E = None"
    and "connect_res E (ip a) 990 = None" and "login_res E (user a) (password a) = None"
    and "prot_p_res E = None"
    and "nlst_root_res E = Inr root" and "ftp_timelapse_folder a \<in> set root"
    and "cwd_res E (ftp_timelapse_folder a) = None"
    and "nlst_timelapse_res E = Inl e"
  shows "ftp_download E a w =
         (if e = error_perm ''550 No files found'' then Done () else SysExit 1,
          w\<lparr>dir_exists := True,
            trace := trace w @ (if dir_exists w then [] else [Makedirs (download_dir a)])
              @ [Listdir (download_dir a), Log INFO (Connecting (user a) (ip a) (port a)),
                 Connect (ip a) 990, Login (user a) (password a), ProtP, Log INFO Connected,
                 Nlst, Cwd (ftp_timelapse_folder a), Log INFO LookingForFiles, Nlst,
                 Log ERROR (if e = error_perm ''550 No files found''
                            then NoFilesInDir else ProgramFailed e)]\<rparr>)
     \<and> exit_code (fst (ftp_download E a w)) =
         (if e = error_perm ''550 No files found'' then 0 else 1)"
proof -
  note cb = connect_block_connected [OF assms(1-5)]
  have "ftp_download E a w =
         (if e = error_perm ''550 No files found'' then Done () else SysExit 1,
          w\<lparr>dir_exists := True,
            trace := trace w @ (if dir_exists w then [] else [Makedirs (download_dir a)])
              @ [Listdir (download_dir a), Log INFO (Connecting (user a) (ip a) (port a)),
                 Connect (ip a) 990, Login (user a) (password a), ProtP, Log INFO Connected,
                 Nlst, Cwd (ftp_timelapse_folder a), Log INFO LookingForFiles, Nlst,
                 Log ERROR (if e = error_perm ''550 No files found''
                            then NoFilesInDir else ProgramFailed e)]\<rparr>)"
    using assms(6-9)
    by (cases e) (simp_all add: ftp_download_def listing_block_def files_block_def cb act_defs)
  then show ?thesis by (simp add: exit_code_def)
qed

theorem listing_error_outcome_witness:
  "exit_code (fst (ftp_download
      (printer\<lparr>nlst_timelapse_res := Inl (error_perm ''550 No files found'')\<rparr>)
      (parse_args ''/opt/bambu'' cmdline) fresh)) = 0
   \<and> exit_code (fst (ftp_download
      (printer\<lparr>nlst_timelapse_res := Inl (error_perm ''550 Permission denied'')\<rparr>)
      (parse_args ''/opt/bambu'' cmdline) fresh)) = 1
   \<and> exit_code (fst (ftp_download
      (printer\<lparr>nlst_timelapse_res := Inl (OtherException ''550 No files found'')\<rparr>)
      (parse_args ''/opt/bambu'' cmdline) fresh)) = 1"
proof -
  let ?a = "parse_args ''/opt/bambu'' cmdline"
  have c: "\<not> dir_exists fresh \<longrightarrow> makedirs_res (printer\<lparr>nlst_timelapse_res := Inl e\<rparr>) = None"
    "listdir_res (printer\<lparr>nlst_timelapse_res := Inl e\<rparr>) = None"
    "connect_res (printer\<lparr>nlst_timelapse_res := Inl e\<rparr>) (ip ?a) 990 = None"
    "login_res (printer\<lparr>nlst_timelapse_res := Inl e\<rparr>) (user ?a) (password ?a) = None"
    "prot_p_res (printer\<lparr>nlst_timelapse_res := Inl e\<rparr>) = None"
    "nlst_root_res (printer\<lparr>nlst_timelapse_res := Inl e\<rparr>) = Inr [''cache'', ''timelapse'']"
    "ftp_timelapse_folder ?a \<in> set [''cache'', ''timelapse'']"
    "cwd_res (printer\<lparr>nlst_timelapse_res := Inl e\<rparr>) (ftp_timelapse_folder ?a) = None"
    "nlst_timelapse_res (printer\<lparr>nlst_timelapse_res := Inl e\<rparr>) = Inl e" for e
    by (simp_all add: printer_def parse_args_def cmdline_def)
  note r = listing_error_outcome [OF c, THEN conjunct2]
  from r [of "error_perm ''550 No files found''"] r [of "error_perm ''550 Permission denied''"]
    r [of "OtherException ''550 No files found''"]
  show ?thesis by simp
qed

subsection \<open>The run as a whole\<close>


text \<open>The first \<open>try\<close> body when the local directory cannot be made, or not listed.\<close>

lemma connect_block_local_failure:
  "\<not> dir_exists w \<Longrightarrow> makedirs_res E = Some e \<Longrightarrow>
     connect_block E a w = (Raised e, w\<lparr>trace := trace w @ [Makedirs (download_dir a)]\<rparr>)"
  "\<not> dir_exists w \<longrightarrow> makedirs_res E = None \<Longrightarrow> listdir_res E = Some e \<Longrightarrow>
     connect_block E a w =
       (Raised e, w\<lparr>dir_exists := True,
                    trace := trace w @ (if dir_exists w then [] else [Makedirs (download_dir a)])
                      @ [Listdir (download_dir a)]\<rparr>)"
proof -
  show "\<not> dir_exists w \<Longrightarrow> makedirs_res E = Some e \<Longrightarrow>
     connect_block E a w = (Raised e, w\<lparr>trace := trace w @ [Makedirs (download_dir a)]\<rparr>)"
    by (simp add: connect_block_def local_defs act_defs)
  assume m: "\<not> dir_exists w \<longrightarrow> makedirs_res E = None" and l: "listdir_res E = Some e"
  show "connect_block E a w =
       (Raised e, w\<lparr>dir_exists := True,
                    trace := trace w @ (if dir_exists w then [] else [Makedirs (download_dir a)])
                      @ [Listdir (download_dir a)]\<rparr>)"
  proof (cases "dir_exists w")
    case False
    with m l show ?thesis
      by (simp add: connect_block_def local_defs act_defs)
  next
    case True
    then have "w\<lparr>dir_exists := True\<rparr> = w" by (cases w) simp
    with True l show ?thesis
      by (simp add: connect_block_def local_defs act_defs)
  qed
qed

text \<open>What it hands on: the names of line 86.\<close>

lemma connect_block_value:
  "(\<forall>k. fst (connect_block E a w) \<noteq> SysExit k)
   \<and> (\<forall>dl. fst (connect_block E a w) = Done dl \<longrightarrow> dl = downloaded_files (dir_names w))"
proof (cases "\<not> dir_exists w \<and> makedirs_res E \<noteq> None")
  case True
  then obtain e where "\<not> dir_exists w" "makedirs_res E = Some e" by auto
  from connect_block_local_failure(1) [OF this, of a] show ?thesis by simp
next
  case False
  then have m: "\<not> dir_exists w \<longrightarrow> makedirs_res E = None" by blast
  show ?thesis
  proof (cases "listdir_res E")
    case (Some e)
    from connect_block_local_failure(2) [OF m Some, of a] show ?thesis by simp
  next
    case None
    show ?thesis
      unfolding connect_block_result [OF m None, of a] Let_def
      by (simp split: option.splits)
  qed
qed

text \<open>The files a run is to download: lines 103 and 104 on the listing of line 103.\<close>

lemma files_block_unfold:
  "files_block E a dl w =
     (case nlst_timelapse_res E of
        Inl e \<Rightarrow> (Raised e, w\<lparr>trace := trace w @ [Log INFO LookingForFiles, Nlst]\<rparr>)
      | Inr listing \<Rightarrow>
          if ftp_timelapse_files dl listing = []
          then (Done (), w\<lparr>trace := trace w @ [Log INFO LookingForFiles, Nlst, Log INFO NoNewFiles]\<rparr>)
          else run_all E a (length (ftp_timelapse_files dl listing)) 1 (ftp_timelapse_files dl listing)
                 (w\<lparr>trace := trace w @ [Log INFO LookingForFiles, Nlst,
                        Log INFO (FoundFiles (length (ftp_timelapse_files dl listing)))]\<rparr>))"
  by (simp add: files_block_def act_defs Let_def split: sum.splits)

lemma keeps_files_block:
  "keeps (case nlst_timelapse_res E of Inl e \<Rightarrow> [] | Inr listing \<Rightarrow> ftp_timelapse_files dl listing)
     (files_block E a dl)"
proof (rule keepsI)
  fix w
  show "retrieves_only
          (case nlst_timelapse_res E of Inl e \<Rightarrow> [] | Inr listing \<Rightarrow> ftp_timelapse_files dl listing)
          w (snd (files_block E a dl w))"
  proof (cases "nlst_timelapse_res E")
    case (Inl e)
    then show ?thesis
      by (simp add: files_block_unfold retrieves_only_events)
  next
    case (Inr listing)
    show ?thesis
    proof (cases "ftp_timelapse_files dl listing = []")
      case True
      with Inr show ?thesis
        by (simp add: files_block_unfold retrieves_only_events del: append.simps)
    next
      case False
      let ?fs = "ftp_timelapse_files dl listing"
      let ?w1 = "w\<lparr>trace := trace w @ [Log INFO LookingForFiles, Nlst, Log INFO (FoundFiles (length ?fs))]\<rparr>"
      have a: "retrieves_only ?fs w ?w1"
        by (rule retrieves_only_events) simp
      have b: "retrieves_only ?fs ?w1 (snd (run_all E a (length ?fs) 1 ?fs ?w1))"
        by (rule keepsD [OF keeps_run_all]) simp
      from retrieves_only_trans [OF a b]
      show ?thesis using Inr False by (simp add: files_block_unfold)
    qed
  qed
qed

lemma listing_block_unfold:
  "listing_block E a dl w =
     (case nlst_root_res E of
        Inl e \<Rightarrow> (Raised e, w\<lparr>trace := trace w @ [Nlst]\<rparr>)
      | Inr root \<Rightarrow>
          if ftp_timelapse_folder a \<in> set root
          then (case cwd_res E (ftp_timelapse_folder a) of
                  Some e \<Rightarrow> (Raised e, w\<lparr>trace := trace w @ [Nlst, Cwd (ftp_timelapse_folder a)]\<rparr>)
                | None \<Rightarrow>
                   (case files_block E a dl (w\<lparr>trace := trace w @ [Nlst, Cwd (ftp_timelapse_folder a)]\<rparr>) of
                      (Raised e, w') \<Rightarrow>
                         if e = error_perm ''550 No files found''
                         then (Done (), w'\<lparr>trace := trace w' @ [Log ERROR NoFilesInDir]\<rparr>)
                         else (Raised e, w')
                    | (Done u, w') \<Rightarrow> (Done u, w')
                    | (SysExit k, w') \<Rightarrow> (SysExit k, w')))
          else (SysExit 1, w\<lparr>trace := trace w @
                  [Nlst, Log INFO (FolderNotFound (ftp_timelapse_folder a))]\<rparr>))"
  by (simp add: listing_block_def act_defs split: sum.splits option.splits prod.splits
        outcome.splits exn.splits)

lemma keeps_listing_block:
  "keeps (case nlst_timelapse_res E of Inl e \<Rightarrow> [] | Inr listing \<Rightarrow> ftp_timelapse_files dl listing)
     (listing_block E a dl)"
  (is "keeps ?T _")
proof (rule keepsI)
  fix w
  show "retrieves_only ?T w (snd (listing_block E a dl w))"
  proof (cases "nlst_root_res E")
    case (Inl e)
    then show ?thesis by (simp add: listing_block_unfold retrieves_only_events)
  next
    case (Inr root)
    show ?thesis
    proof (cases "ftp_timelapse_folder a \<in> set root")
      case False
      with Inr show ?thesis
        by (simp add: listing_block_unfold retrieves_only_events del: append.simps)
    next
      case True
      show ?thesis
      proof (cases "cwd_res E (ftp_timelapse_folder a)")
        case (Some e)
        with Inr True show ?thesis
          by (simp add: listing_block_unfold retrieves_only_events del: append.simps)
      next
        case None
        define w0 where "w0 = w\<lparr>trace := trace w @ [Nlst, Cwd (ftp_timelapse_folder a)]\<rparr>"
        obtain r w1 where fb: "files_block E a dl w0 = (r, w1)"
          by (cases "files_block E a dl w0")
        have a0: "retrieves_only ?T w w0"
          unfolding w0_def by (rule retrieves_only_events) simp
        have "retrieves_only ?T w0 (snd (files_block E a dl w0))"
          by (rule keepsD [OF keeps_files_block])
        then have a1: "retrieves_only ?T w0 w1"
          by (simp add: fb)
        note a01 = retrieves_only_trans [OF a0 a1]
        have a2: "retrieves_only ?T w1 (w1\<lparr>trace := trace w1 @ [Log ERROR NoFilesInDir]\<rparr>)"
          by (rule retrieves_only_events) simp
        note a02 = retrieves_only_trans [OF a01 a2]
        have lb: "listing_block E a dl w =
            (case (r, w1) of
               (Raised e, w') \<Rightarrow>
                  if e = error_perm ''550 No files found''
                  then (Done (), w'\<lparr>trace := trace w' @ [Log ERROR NoFilesInDir]\<rparr>)
                  else (Raised e, w')
             | (Done u, w') \<Rightarrow> (Done u, w')
             | (SysExit k, w') \<Rightarrow> (SysExit k, w'))"
          using Inr True None fb by (simp add: listing_block_unfold w0_def)
        show ?thesis
          unfolding lb using a01 a02 by (cases r) simp_all
      qed
    qed
  qed
qed

lemma ftp_download_cases:
  "ftp_download E a w =
     (case connect_block E a w of
        (Done dl, w1) \<Rightarrow>
          (case listing_block E a dl w1 of
             (Done u, w2) \<Rightarrow> (Done (), w2)
           | (Raised e, w2) \<Rightarrow> (SysExit 1, w2\<lparr>trace := trace w2 @ [Log ERROR (ProgramFailed e)]\<rparr>)
           | (SysExit k, w2) \<Rightarrow> (SysExit k, w2))
      | (Raised e, w1) \<Rightarrow> (SysExit 1, w1\<lparr>trace := trace w1 @ [Log ERROR (ConnectionFailed e)]\<rparr>)
      | (SysExit k, w1) \<Rightarrow> (SysExit k, w1))"
  by (simp add: ftp_download_def act_defs split: prod.splits outcome.splits)

text \<open>From the end of the first \<open>try\<close> to the end of the run.\<close>

lemma ftp_download_after_connect:
  "retrieves_only
      (case nlst_timelapse_res E of Inl e \<Rightarrow> []
       | Inr listing \<Rightarrow> ftp_timelapse_files (downloaded_files (dir_names w)) listing)
      (snd (connect_block E a w)) (snd (ftp_download E a w))"
  (is "retrieves_only ?T _ _")
proof -
  obtain r1 w1 where cb: "connect_block E a w = (r1, w1)"
    by (cases "connect_block E a w")
  note fr = connect_block_value [where w=w and E=E and a=a, unfolded cb fst_conv snd_conv]
  have a1': "retrieves_only ?T w1 (w1\<lparr>trace := trace w1 @ [Log ERROR (ConnectionFailed e)]\<rparr>)" for e
    by (rule retrieves_only_events) simp
  show ?thesis
  proof (cases r1)
    case (Raised e)
    with cb a1' show ?thesis by (simp add: ftp_download_cases)
  next
    case (SysExit k)
    with fr show ?thesis by simp
  next
    case (Done dl)
    with fr have "dl = downloaded_files (dir_names w)" by simp
    with Done have Done: "r1 = Done (downloaded_files (dir_names w))" by simp
    obtain r2 w2
      where lb: "listing_block E a (downloaded_files (dir_names w)) w1 = (r2, w2)"
      by (cases "listing_block E a (downloaded_files (dir_names w)) w1")
    have "retrieves_only ?T w1
        (snd (listing_block E a (downloaded_files (dir_names w)) w1))"
      by (rule keepsD [OF keeps_listing_block])
    then have a2: "retrieves_only ?T w1 w2"
      by (simp add: lb)
    have a3: "retrieves_only ?T w1 (w2\<lparr>trace := trace w2 @ [Log ERROR (ProgramFailed e)]\<rparr>)" for e
      by (rule retrieves_only_trans [OF a2]) (rule retrieves_only_events, simp)
    show ?thesis
      using cb Done lb a2 a3 by (cases r2) (simp_all add: ftp_download_cases)
  qed
qed


subsection \<open>The download set\<close>



subsection \<open>The local directory comes first\<close>

text \<open>
  C10. The download directory is made (when absent) and listed, and the local names
  ending in \<open>.avi\<close> are taken from that listing, before the connection is attempted.
  When making the directory raises, or when listing it raises, the run logs the error
  under the connection-failure message and exits with status 1, and its trace holds no
  FTP call. Otherwise the trace continues with the listing, the connection notice and
  \<open>connect\<close>, in that order, the directory exists when the run ends, and what the first
  \<open>try\<close> hands on, when it completes, is the list of the names ending in \<open>.avi\<close> that the
  directory held at the start.
\<close>

theorem local_setup_precedes_connection:
  "(\<not> dir_exists w \<and> makedirs_res E = Some e \<longrightarrow>
      ftp_download E a w =
        (SysExit 1,
         w\<lparr>trace := trace w @ [Makedirs (download_dir a), Log ERROR (ConnectionFailed e)]\<rparr>))
   \<and> ((\<not> dir_exists w \<longrightarrow> makedirs_res E = None) \<and> listdir_res E = Some e \<longrightarrow>
      ftp_download E a w =
        (SysExit 1,
         w\<lparr>dir_exists := True,
           trace := trace w @ (if dir_exists w then [] else [Makedirs (download_dir a)])
             @ [Listdir (download_dir a), Log ERROR (ConnectionFailed e)]\<rparr>))
   \<and> ((\<not> dir_exists w \<longrightarrow> makedirs_res E = None) \<and> listdir_res E = None \<longrightarrow>
      dir_exists (snd (ftp_download E a w))
      \<and> (\<exists>rest. trace (snd (ftp_download E a w)) =
            trace w @ (if dir_exists w then [] else [Makedirs (download_dir a)])
              @ [Listdir (download_dir a), Log INFO (Connecting (user a) (ip a) (port a)),
                 Connect (ip a) 990] @ rest)
      \<and> (\<forall>dl. fst (connect_block E a w) = Done dl \<longrightarrow>
            dl = filter (\<lambda>f. endswith f ''.avi'') (dir_names w)))"
proof (intro conjI impI)
  assume "\<not> dir_exists w \<and> makedirs_res E = Some e"
  then have "connect_block E a w = (Raised e, w\<lparr>trace := trace w @ [Makedirs (download_dir a)]\<rparr>)"
    by (simp add: connect_block_local_failure(1))
  then show "ftp_download E a w =
        (SysExit 1,
         w\<lparr>trace := trace w @ [Makedirs (download_dir a), Log ERROR (ConnectionFailed e)]\<rparr>)"
    by (simp add: ftp_download_cases)
next
  assume "(\<not> dir_exists w \<longrightarrow> makedirs_res E = None) \<and> listdir_res E = Some e"
  then have "connect_block E a w =
       (Raised e, w\<lparr>dir_exists := True,
                    trace := trace w @ (if dir_exists w then [] else [Makedirs (download_dir a)])
                      @ [Listdir (download_dir a)]\<rparr>)"
    by (simp add: connect_block_local_failure(2))
  then show "ftp_download E a w =
        (SysExit 1,
         w\<lparr>dir_exists := True,
           trace := trace w @ (if dir_exists w then [] else [Makedirs (download_dir a)])
             @ [Listdir (download_dir a), Log ERROR (ConnectionFailed e)]\<rparr>)"
    by (simp add: ftp_download_cases)
next
  assume ok: "(\<not> dir_exists w \<longrightarrow> makedirs_res E = None) \<and> listdir_res E = None"
  define pre where "pre = (if dir_exists w then [] else [Makedirs (download_dir a)])
              @ [Listdir (download_dir a), Log INFO (Connecting (user a) (ip a) (port a)),
                 Connect (ip a) 990]"
  have "\<exists>more. trace (snd (connect_block E a w)) = trace w @ pre @ more
      \<and> dir_exists (snd (connect_block E a w))"
    unfolding connect_block_result [OF ok [THEN conjunct1] ok [THEN conjunct2], of a] Let_def pre_def
    by (simp split: option.splits)
  then obtain more where t1: "trace (snd (connect_block E a w)) = trace w @ pre @ more"
    and d1: "dir_exists (snd (connect_block E a w))"
    by (elim exE conjE)
  from ftp_download_after_connect [where E=E and w=w and a=a]
  obtain evs where t2: "trace (snd (ftp_download E a w)) = trace (snd (connect_block E a w)) @ evs"
    and d2: "dir_exists (snd (connect_block E a w)) \<longrightarrow> dir_exists (snd (ftp_download E a w))"
    unfolding retrieves_only_def by (elim exE conjE)
  from d1 d2 show "dir_exists (snd (ftp_download E a w))" by simp
  have "trace (snd (ftp_download E a w)) = trace w @ pre @ (more @ evs)"
    using t1 t2 by simp
  then show "\<exists>rest. trace (snd (ftp_download E a w)) =
            trace w @ (if dir_exists w then [] else [Makedirs (download_dir a)])
              @ [Listdir (download_dir a), Log INFO (Connecting (user a) (ip a) (port a)),
                 Connect (ip a) 990] @ rest"
    unfolding pre_def by (intro exI [of _ "more @ evs"]) simp
  show "\<forall>dl. fst (connect_block E a w) = Done dl \<longrightarrow>
            dl = filter (\<lambda>f. endswith f ''.avi'') (dir_names w)"
    using connect_block_value [where E=E and a=a and w=w, THEN conjunct2]
    by (simp add: downloaded_files_def)
qed

theorem local_setup_precedes_connection_witness:
  "ftp_download (printer\<lparr>makedirs_res := Some (OtherException ''Permission denied'')\<rparr>)
       (parse_args ''/opt/bambu'' cmdline) fresh =
     (SysExit 1,
      fresh\<lparr>trace := trace fresh @
        [Makedirs (download_dir (parse_args ''/opt/bambu'' cmdline)),
         Log ERROR (ConnectionFailed (OtherException ''Permission denied''))]\<rparr>)
   \<and> ftp_download (printer\<lparr>listdir_res := Some (OtherException ''Not a directory'')\<rparr>)
       (parse_args ''/opt/bambu'' cmdline) stocked =
     (SysExit 1,
      stocked\<lparr>dir_exists := True,
        trace := trace stocked @
          [Listdir (download_dir (parse_args ''/opt/bambu'' cmdline)),
           Log ERROR (ConnectionFailed (OtherException ''Not a directory''))]\<rparr>)
   \<and> dir_exists (snd (ftp_download printer (parse_args ''/opt/bambu'' cmdline) fresh))
   \<and> fst (connect_block printer (parse_args ''/opt/bambu'' cmdline)
            (stocked\<lparr>files := (InDir ''notes.txt'', File ''x'') # files stocked\<rparr>))
       = Done [''old.avi'']"
proof -
  let ?a = "parse_args ''/opt/bambu'' cmdline"
  let ?E1 = "printer\<lparr>makedirs_res := Some (OtherException ''Permission denied'')\<rparr>"
  let ?E2 = "printer\<lparr>listdir_res := Some (OtherException ''Not a directory'')\<rparr>"
  let ?w3 = "stocked\<lparr>files := (InDir ''notes.txt'', File ''x'') # files stocked\<rparr>"
  have h1: "\<not> dir_exists fresh \<and> makedirs_res ?E1 = Some (OtherException ''Permission denied'')"
    by (simp add: fresh_def printer_def)
  have h2: "(\<not> dir_exists stocked \<longrightarrow> makedirs_res ?E2 = None)
      \<and> listdir_res ?E2 = Some (OtherException ''Not a directory'')"
    by (simp add: stocked_def printer_def)
  have h3: "(\<not> dir_exists fresh \<longrightarrow> makedirs_res printer = None) \<and> listdir_res printer = None"
    by (simp add: printer_def)
  have h4: "(\<not> dir_exists ?w3 \<longrightarrow> makedirs_res printer = None) \<and> listdir_res printer = None"
    by (simp add: printer_def)
  have s: "dir_exists stocked" by (simp add: stocked_def)
  have v: "fst (connect_block printer ?a ?w3) =
      Done (downloaded_files (dir_names ?w3))"
    by (simp add: connect_block_connected printer_def stocked_def)
  have f: "filter (\<lambda>f. endswith f ''.avi'') (dir_names ?w3) = [''old.avi'']"
    by (simp add: dir_names_def stocked_def endswith_def)
  note t = local_setup_precedes_connection
  from t [where w="?w3" and E=printer and a="?a",
      THEN conjunct2, THEN conjunct2, THEN mp, OF h4, THEN conjunct2, THEN conjunct2,
      rule_format, OF v]
  have eq: "downloaded_files (dir_names ?w3) = filter (\<lambda>f. endswith f ''.avi'') (dir_names ?w3)" .
  have c4: "fst (connect_block printer ?a ?w3) = Done [''old.avi'']"
    unfolding v eq f by (rule refl)
  from t [where w=fresh and E="?E1" and a="?a", THEN conjunct1, THEN mp, OF h1]
    t [where w=stocked and E="?E2" and a="?a", THEN conjunct2, THEN conjunct1, THEN mp, OF h2]
    t [where w=fresh and E=printer and a="?a", THEN conjunct2, THEN conjunct2, THEN mp, OF h3,
       THEN conjunct1]
    s c4
  show ?thesis by simp
qed

subsection \<open>Runs\<close>

lemmas run_defs = main_def ftp_download_def connect_block_def listing_block_def files_block_def
  fetch_one_def filesize_mb_def true_div_overflows_def download_attempt_def cleanup_def
  retrbinary_def open_wb_def os_remove_def os_path_exists_def local_defs fhandle_write_def
  node_at_def dir_names_def downloaded_files_def ftp_timelapse_files_def endswith_def
  parse_args_def download_file_path_def plain_def act_defs Let_def

text \<open>
  C2. Stated: a failure while sizing or while streaming one file is logged, the file is
  skipped and the run goes on with the next file. The transfer is inside the \<open>try\<close> of
  line 118 and behaves so (see C5). The \<open>SIZE\<close> request of line 111 is outside it: when
  it raises, the exception leaves the loop and reaches the handler of line 156. In the
  run below the printer lists \<open>a.avi\<close> and \<open>b.avi\<close>, and \<open>SIZE a.avi\<close> times out: the
  run logs \<open>Program failed\<close> and exits with status 1, and \<open>b.avi\<close>, which the printer
  would have delivered, is never asked for.
\<close>

theorem sizing_failure_ends_run:
  "main (printer\<lparr>nlst_timelapse_res := Inr [''a.avi'', ''b.avi''],
                size_res := \<lambda>_ f. if f = ''a.avi'' then Inl (OtherException ''timed out'')
                                   else Inr (Some 8)\<rparr>)
        ''/opt/bambu'' cmdline fresh =
     (SysExit 1,
      \<lparr>dir_exists = True, files = [],
       trace =
         [Log INFO Starting, Makedirs ''videos'', Listdir ''videos'',
          Log INFO (Connecting ''bblp'' (Some ''192.168.1.50'') 990),
          Connect (Some ''192.168.1.50'') 990, Login ''bblp'' (Some ''12345678''), ProtP,
          Log INFO Connected, Nlst, Cwd ''timelapse'', Log INFO LookingForFiles, Nlst,
          Log INFO (FoundFiles 2), Size ''a.avi'',
          Log ERROR (ProgramFailed (OtherException ''timed out''))]\<rparr>)"
  by (simp add: run_defs printer_def cmdline_def fresh_def)

text \<open>
  C3. Stated: the control connection is opened to the port given by \<open>--port\<close>. Line 167
  parses the flag and line 88 logs its value, but line 90 passes the literal 990. In the
  run below the flag is 2121: the notice names port 2121 and \<open>connect\<close> is called with 990.
\<close>

theorem port_flag_ignored:
  "port (parse_args ''/opt/bambu'' (cmdline\<lparr>cli_port := Some 2121\<rparr>)) = 2121
   \<and> take 5 (trace (snd (main printer ''/opt/bambu'' (cmdline\<lparr>cli_port := Some 2121\<rparr>) fresh))) =
       [Log INFO Starting, Makedirs ''videos'', Listdir ''videos'',
        Log INFO (Connecting ''bblp'' (Some ''192.168.1.50'') 2121),
        Connect (Some ''192.168.1.50'') 990]"
  by (simp add: run_defs printer_def cmdline_def fresh_def)

text \<open>
  Without the proviso on \<open>os.remove\<close> the statement of C5 fails. In the run below the
  transfer of \<open>a.avi\<close> breaks off after two bytes and \<open>os.remove\<close> (line 143) raises: the
  exception leaves the handler and the loop, the run logs \<open>Program failed\<close> and exits
  with status 1, and the two bytes stay in the download directory.
\<close>

theorem partial_file_left_when_remove_raises:
  "snd (retr_res (printer\<lparr>retr_res := \<lambda>_ _. ([''RI''], Some (OtherException ''timed out'')),
                remove_res := \<lambda>_ _. Some (OtherException ''[Errno 13] Permission denied'')\<rparr>)
          1 ''a.avi'') = Some (OtherException ''timed out'')
   \<and> main (printer\<lparr>retr_res := \<lambda>_ _. ([''RI''], Some (OtherException ''timed out'')),
                remove_res := \<lambda>_ _. Some (OtherException ''[Errno 13] Permission denied'')\<rparr>)
        ''/opt/bambu'' cmdline fresh =
     (SysExit 1,
      \<lparr>dir_exists = True, files = [(InDir ''a.avi'', File ''RI'')],
       trace =
         [Log INFO Starting, Makedirs ''videos'', Listdir ''videos'',
          Log INFO (Connecting ''bblp'' (Some ''192.168.1.50'') 990),
          Connect (Some ''192.168.1.50'') 990, Login ''bblp'' (Some ''12345678''), ProtP,
          Log INFO Connected, Nlst, Cwd ''timelapse'', Log INFO LookingForFiles, Nlst,
          Log INFO (FoundFiles 2), Size ''a.avi'', Log INFO (StartingDownload 1 2 ''a.avi'' 8),
          OpenWb ''videos/a.avi'', Retr ''a.avi'', Remove ''videos/a.avi'',
          Log ERROR (ProgramFailed (OtherException ''[Errno 13] Permission denied''))]\<rparr>)"
  by (simp add: run_defs printer_def cmdline_def fresh_def)

text \<open>
  Two more runs, on the edges of the statements above. A listed name that is another
  spelling of a local entry passes the check by name, and the transfer overwrites that
  entry. A size that line 112 cannot divide ends the run like a failing \<open>SIZE\<close>.
\<close>

lemma same_file_under_another_name:
  "main (printer\<lparr>resolve := (\<lambda>p. if p = ''videos/./old.avi'' then InDir ''old.avi'' else plain p),
                nlst_timelapse_res := Inr [''./old.avi'']\<rparr>)
        ''/opt/bambu'' cmdline stocked =
     (Done (),
      \<lparr>dir_exists = True, files = [(InDir ''old.avi'', File ''RIFFdata'')],
       trace =
         [Log INFO Starting, Listdir ''videos'',
          Log INFO (Connecting ''bblp'' (Some ''192.168.1.50'') 990),
          Connect (Some ''192.168.1.50'') 990, Login ''bblp'' (Some ''12345678''), ProtP,
          Log INFO Connected, Nlst, Cwd ''timelapse'', Log INFO LookingForFiles, Nlst,
          Log INFO (FoundFiles 1), Size ''./old.avi'',
          Log INFO (StartingDownload 1 1 ''./old.avi'' 500),
          OpenWb ''videos/./old.avi'', Retr ''./old.avi'']\<rparr>)"
  by (simp add: run_defs printer_def cmdline_def stocked_def)

lemma oversized_file_ends_run:
  "main (printer\<lparr>size_res := \<lambda>_ _. Inr (Some (10 ^ 400))\<rparr>) ''/opt/bambu'' cmdline fresh =
     (SysExit 1,
      \<lparr>dir_exists = True, files = [],
       trace =
         [Log INFO Starting, Makedirs ''videos'', Listdir ''videos'',
          Log INFO (Connecting ''bblp'' (Some ''192.168.1.50'') 990),
          Connect (Some ''192.168.1.50'') 990, Login ''bblp'' (Some ''12345678''), ProtP,
          Log INFO Connected, Nlst, Cwd ''timelapse'', Log INFO LookingForFiles, Nlst,
          Log INFO (FoundFiles 2), Size ''a.avi'',
          Log ERROR (ProgramFailed
            (OverflowError ''integer division result too large for a float''))]\<rparr>)"
  by (simp add: run_defs printer_def cmdline_def fresh_def)

end
